theory Spec2Isabelle
  imports Main "HOL-Library.Sublist" "HOL-Library.Multiset"
begin

section \<open>Python values of \<open>cfncli/cli/cleanup_environment.py\<close>\<close>

text \<open>
  Names are Python strings, modelled as \<open>string\<close>. For two strings \<open>sub in s\<close> is
  \<^const>\<open>sublist\<close> (a contiguous occurrence; the empty string occurs everywhere) and
  \<open>s.startswith(p)\<close> is \<^const>\<open>prefix\<close>.

  The exceptions the module meets are botocore's \<open>ClientError\<close> (with
  \<open>e.response["Error"]["Code"]\<close>, \<open>e.response["Error"]["Message"]\<close> and the text
  \<open>str(e)\<close>), the \<open>TypeError\<close> of iterating \<open>None\<close>, and any other subclass of
  \<open>Exception\<close> a provider call may raise (the waiter's error, for one).
\<close>

datatype exn =
  ClientError string string string
| TypeError string
| OtherException string

fun str_exn :: "exn \<Rightarrow> string" where
  "str_exn (ClientError code message text) = text"
| "str_exn (TypeError text) = text"
| "str_exn (OtherException text) = text"

definition apostrophe :: string where
  "apostrophe = [CHR 0x27]"

definition not_iterable :: exn where
  "not_iterable = TypeError (apostrophe @ ''NoneType'' @ apostrophe @ '' object is not iterable'')"

text \<open>A \<open>for\<close> loop whose body may raise: the first exception ends the loop.\<close>

fun for_each :: "('a \<Rightarrow> 's \<Rightarrow> exn + 's) \<Rightarrow> 'a list \<Rightarrow> 's \<Rightarrow> exn + 's" where
  "for_each body [] s = Inr s"
| "for_each body (x # xs) s =
     (case body x s of Inl e \<Rightarrow> Inl e | Inr s' \<Rightarrow> for_each body xs s')"

text \<open>
  \<open>any(sub in name for sub in substrings)\<close>. \<open>substrings\<close> is \<open>env_list\<close>, whose default
  is \<open>None\<close>: building the generator over \<open>None\<close> raises \<open>TypeError\<close>.
\<close>

fun any_in :: "string list option \<Rightarrow> string \<Rightarrow> exn + bool" where
  "any_in None s = Inl not_iterable"
| "any_in (Some substrings) s = Inr (list_ex (\<lambda>sub. sublist sub s) substrings)"

text \<open>
  \<open>sorted(xs, key=key, reverse=True)\<close>: a stable sort under the reversed comparison,
  so descending in the key, elements of equal key staying in their order.
  Creation times are points in time, modelled as \<open>int\<close>.
\<close>

definition sorted_reverse :: "('a \<Rightarrow> int) \<Rightarrow> 'a list \<Rightarrow> 'a list" where
  "sorted_reverse key xs = sort_key (\<lambda>x. - key x) xs"

section \<open>Provider data\<close>

record stack_summary =
  StackName :: string
  StackStatus :: string
  ParentId :: "string option"
  CreationTime :: int

record bucket =
  name :: string

record repository =
  repositoryName :: string

record log_group =
  logGroupName :: string

record parameter =
  Name :: string

record vpc_config =
  VpcId :: "string option"

record lambda_function =
  FunctionName :: string
  VpcConfig :: "vpc_config option"

text \<open>
  The values of \<open>StackStatus\<close> in the CloudFormation API. The provider returns no
  other status; the module only names \<open>DELETE_COMPLETE\<close>.
\<close>

definition stack_status_values :: "string list" where
  "stack_status_values =
    [''CREATE_IN_PROGRESS'', ''CREATE_FAILED'', ''CREATE_COMPLETE'',
     ''ROLLBACK_IN_PROGRESS'', ''ROLLBACK_FAILED'', ''ROLLBACK_COMPLETE'',
     ''DELETE_IN_PROGRESS'', ''DELETE_FAILED'', ''DELETE_COMPLETE'',
     ''UPDATE_IN_PROGRESS'', ''UPDATE_COMPLETE_CLEANUP_IN_PROGRESS'', ''UPDATE_COMPLETE'',
     ''UPDATE_FAILED'', ''UPDATE_ROLLBACK_IN_PROGRESS'', ''UPDATE_ROLLBACK_FAILED'',
     ''UPDATE_ROLLBACK_COMPLETE_CLEANUP_IN_PROGRESS'', ''UPDATE_ROLLBACK_COMPLETE'',
     ''REVIEW_IN_PROGRESS'', ''IMPORT_IN_PROGRESS'', ''IMPORT_COMPLETE'',
     ''IMPORT_ROLLBACK_IN_PROGRESS'', ''IMPORT_ROLLBACK_FAILED'',
     ''IMPORT_ROLLBACK_COMPLETE'']"

section \<open>Gatherers\<close>

text \<open>
  Each gatherer creates a client for \<open>region\<close>, lists, and filters what the provider
  returned. The model takes the provider's answer in the place of \<open>region\<close>: the pages
  of a paginator as a list of pages, the bucket collection as a list. The call itself
  is made in \<open>gather_resources\<close> and \<open>gather_unmanaged_resources\<close> below.
\<close>

definition gather_cloudformation_stacks ::
  "string list option \<Rightarrow> stack_summary list list \<Rightarrow> exn + string list" where
  "gather_cloudformation_stacks substrings pages =
     (case for_each (\<lambda>page. for_each (\<lambda>stack stack_infos.
              if \<not> sublist ''DELETE_COMPLETE'' (StackStatus stack) \<and> ParentId stack = None
              then (case any_in substrings (StackName stack) of
                      Inl e \<Rightarrow> Inl e
                    | Inr found \<Rightarrow>
                        Inr (if found
                             then stack_infos @ [(StackName stack, CreationTime stack)]
                             else stack_infos))
              else Inr stack_infos) page) pages [] of
        Inl e \<Rightarrow> Inl e
      | Inr stack_infos \<Rightarrow> Inr (map fst (sorted_reverse snd stack_infos)))"

definition gather_s3_buckets :: "string list option \<Rightarrow> bucket list \<Rightarrow> exn + string list" where
  "gather_s3_buckets substrings all_buckets =
     for_each (\<lambda>bucket buckets.
        case any_in substrings (name bucket) of
          Inl e \<Rightarrow> Inl e
        | Inr found \<Rightarrow> Inr (if found then buckets @ [name bucket] else buckets))
       all_buckets []"

definition gather_ddb_tables :: "string list option \<Rightarrow> string list list \<Rightarrow> exn + string list" where
  "gather_ddb_tables substrings pages =
     for_each (\<lambda>page. for_each (\<lambda>table_name tables.
        case any_in substrings table_name of
          Inl e \<Rightarrow> Inl e
        | Inr found \<Rightarrow> Inr (if found then tables @ [table_name] else tables)) page)
       pages []"

definition gather_ecr_repositories ::
  "string list option \<Rightarrow> repository list list \<Rightarrow> exn + string list" where
  "gather_ecr_repositories substrings pages =
     for_each (\<lambda>page. for_each (\<lambda>repo repositories.
        case any_in substrings (repositoryName repo) of
          Inl e \<Rightarrow> Inl e
        | Inr found \<Rightarrow>
            Inr (if found then repositories @ [repositoryName repo] else repositories)) page)
       pages []"

definition gather_log_groups ::
  "string list option \<Rightarrow> log_group list list \<Rightarrow> exn + string list" where
  "gather_log_groups substrings pages =
     for_each (\<lambda>page. for_each (\<lambda>lg log_groups.
        case any_in substrings (logGroupName lg) of
          Inl e \<Rightarrow> Inl e
        | Inr found \<Rightarrow> Inr (if found then log_groups @ [logGroupName lg] else log_groups)) page)
       pages []"

text \<open>
  The inner loop of \<open>gather_ssm_params\<close>: the first substring \<open>sub\<close> with
  \<open>param["Name"].startswith(f"/{sub}/")\<close> appends the name and breaks.
\<close>

fun ssm_first_match :: "string list \<Rightarrow> string \<Rightarrow> string list \<Rightarrow> string list" where
  "ssm_first_match [] param_name ssm_params = ssm_params"
| "ssm_first_match (sub # subs) param_name ssm_params =
     (if prefix (''/'' @ sub @ ''/'') param_name then ssm_params @ [param_name]
      else ssm_first_match subs param_name ssm_params)"

definition gather_ssm_params ::
  "string list option \<Rightarrow> parameter list list \<Rightarrow> exn + string list" where
  "gather_ssm_params substrings pages =
     for_each (\<lambda>page. for_each (\<lambda>param ssm_params.
        case substrings of
          None \<Rightarrow> Inl not_iterable
        | Some subs \<Rightarrow> Inr (ssm_first_match subs (Name param) ssm_params)) page)
       pages []"

text \<open>
  \<open>function["VpcConfig"].get("VpcId")\<close> is true for a present, non-empty id.
\<close>

definition gather_vpc_lambdas ::
  "string list option \<Rightarrow> lambda_function list list \<Rightarrow> exn + string list" where
  "gather_vpc_lambdas substrings pages =
     for_each (\<lambda>page. for_each (\<lambda>function lambda_functions.
        case any_in substrings (FunctionName function) of
          Inl e \<Rightarrow> Inl e
        | Inr found \<Rightarrow>
            Inr (if found \<and>
                    (case VpcConfig function of
                       None \<Rightarrow> False
                     | Some vc \<Rightarrow> (case VpcId vc of None \<Rightarrow> False | Some v \<Rightarrow> v \<noteq> []))
                 then lambda_functions @ [FunctionName function]
                 else lambda_functions)) page)
       pages []"

section \<open>Effects: provider calls, prompts and output\<close>

text \<open>
  What the module does to the outside is recorded as a list of events: a provider call
  made through a client or resource of some region, a line written by \<open>click.secho\<close>
  (with its \<open>fg\<close> colour), a question asked by \<open>click.confirm\<close>.
\<close>

datatype colour = Red | Yellow | Green

datatype styled = Styled string "colour option"

datatype api_call =
  ListStacks
| ListBuckets
| ListTables
| DescribeRepositories
| DescribeLogGroups
| DescribeParameters
| ListFunctions
| ObjectVersionsDelete string
| BucketDelete string
| ListImages string
| BatchDeleteImage string "string list"
| DeleteRepository string
| DeleteStack string
| WaitStackDeleteComplete string
| DeleteParameter string
| DeleteLogGroup string
| UpdateFunctionConfiguration string
| UpdateTable string

datatype event =
  Call string api_call
| Echo styled
| Confirm string

text \<open>
  How a call of the module ends when it does not return: an exception of the provider
  or of Python left uncaught, the \<open>click.ClickException\<close> of \<open>raise_for_click\<close>, or the
  \<open>Abort\<close> of \<open>ctx.abort()\<close>.
\<close>

datatype failure =
  Raised exn
| ClickException styled
| Abort

text \<open>
  The outside world answers as a function of the events so far (so that the same call
  may succeed once and fail later, and a listing may change between the two passes):
  whether a provider call raises, what each listing returns, what the user answers to a
  prompt (yes or no: a prompt the user interrupts is not modelled). \<open>list_images\<close>
  gives the \<open>imageDigest\<close> of each entry of \<open>imageIds\<close>. \<open>str_substrings\<close> is
  Python's formatting of \<open>{substrings}\<close> in an f-string.
\<close>

record world =
  api_error :: "event list \<Rightarrow> string \<Rightarrow> api_call \<Rightarrow> exn option"
  list_stacks :: "event list \<Rightarrow> string \<Rightarrow> stack_summary list list"
  buckets_all :: "event list \<Rightarrow> string \<Rightarrow> bucket list"
  list_tables :: "event list \<Rightarrow> string \<Rightarrow> string list list"
  describe_repositories :: "event list \<Rightarrow> string \<Rightarrow> repository list list"
  describe_log_groups :: "event list \<Rightarrow> string \<Rightarrow> log_group list list"
  describe_parameters :: "event list \<Rightarrow> string \<Rightarrow> parameter list list"
  list_functions :: "event list \<Rightarrow> string \<Rightarrow> lambda_function list list"
  list_images :: "event list \<Rightarrow> string \<Rightarrow> string \<Rightarrow> string list"
  confirm_answer :: "event list \<Rightarrow> string \<Rightarrow> bool"
  str_substrings :: "string list option \<Rightarrow> string"

text \<open>
  A piece of the program takes the events so far and gives the events it adds and how
  it ends.
\<close>

type_synonym 'a prog = "event list \<Rightarrow> event list \<times> (failure + 'a)"

definition ret :: "'a \<Rightarrow> 'a prog" where
  "ret x h = ([], Inr x)"

definition raise :: "failure \<Rightarrow> 'a prog" where
  "raise f h = ([], Inl f)"

definition and_then :: "'a prog \<Rightarrow> ('a \<Rightarrow> 'b prog) \<Rightarrow> 'b prog" where
  "and_then m k h =
     (case m h of
        (es, Inl f) \<Rightarrow> (es, Inl f)
      | (es, Inr x) \<Rightarrow> (case k x (h @ es) of (es', r) \<Rightarrow> (es @ es', r)))"

text \<open>\<open>try: body except Exception as e: handler\<close>; the handler may raise again.\<close>

definition try_except :: "'a prog \<Rightarrow> (exn \<Rightarrow> 'a prog) \<Rightarrow> 'a prog" where
  "try_except body handler h =
     (case body h of
        (es, Inl (Raised e)) \<Rightarrow> (case handler e (h @ es) of (es', r) \<Rightarrow> (es @ es', r))
      | (es, r) \<Rightarrow> (es, r))"

fun for_prog :: "('a \<Rightarrow> unit prog) \<Rightarrow> 'a list \<Rightarrow> unit prog" where
  "for_prog body [] h = ([], Inr ())"
| "for_prog body (x # xs) h =
     (case body x h of
        (es, Inl f) \<Rightarrow> (es, Inl f)
      | (es, Inr u) \<Rightarrow> (case for_prog body xs (h @ es) of (es', r) \<Rightarrow> (es @ es', r)))"

definition secho :: "string \<Rightarrow> colour option \<Rightarrow> unit prog" where
  "secho text fg h = ([Echo (Styled text fg)], Inr ())"

definition confirm :: "world \<Rightarrow> string \<Rightarrow> bool prog" where
  "confirm w text h = ([Confirm text], Inr (confirm_answer w h text))"

text \<open>A provider call that returns \<open>resp\<close> unless it raises.\<close>

definition call_for :: "world \<Rightarrow> string \<Rightarrow> api_call \<Rightarrow> (event list \<Rightarrow> 'a) \<Rightarrow> 'a prog" where
  "call_for w region c resp h =
     ([Call region c],
      case api_error w h region c of None \<Rightarrow> Inr (resp h) | Some e \<Rightarrow> Inl (Raised e))"

definition call :: "world \<Rightarrow> string \<Rightarrow> api_call \<Rightarrow> unit prog" where
  "call w region c = call_for w region c (\<lambda>h. ())"

text \<open>
  A gatherer at work: the listing call, then the filter of the section above over
  what it returned. An exception of either is left uncaught. The filter has no effect
  of its own, so a listing that raises while paging counts as a listing that raises.
\<close>

definition listing ::
  "world \<Rightarrow> string \<Rightarrow> api_call \<Rightarrow> (event list \<Rightarrow> exn + 'a) \<Rightarrow> 'a prog" where
  "listing w region c gather h =
     ([Call region c],
      case api_error w h region c of
        Some e \<Rightarrow> Inl (Raised e)
      | None \<Rightarrow> (case gather h of Inl e \<Rightarrow> Inl (Raised e) | Inr x \<Rightarrow> Inr x))"

text \<open>\<open>helpers.raise_for_click\<close>: \<open>raise click.ClickException(click.style(message, fg="red"))\<close>.\<close>

definition raise_for_click :: "string \<Rightarrow> 'a prog" where
  "raise_for_click message = raise (ClickException (Styled message (Some Red)))"

text \<open>\<open>sep.join(xs)\<close>.\<close>

fun join :: "string \<Rightarrow> string list \<Rightarrow> string" where
  "join sep [] = []"
| "join sep [x] = x"
| "join sep (x # y # ys) = x @ sep @ join sep (y # ys)"

definition newline :: string where
  "newline = [CHR 0x0A]"

section \<open>Gathering the inventories\<close>

record resources =
  cloudformation_stacks :: "string list"
  s3_buckets :: "string list"
  ecr_repositories :: "string list"
  vpc_lambdas :: "string list"
  ddb_tables :: "string list"

definition gather_resources :: "world \<Rightarrow> string list option \<Rightarrow> string \<Rightarrow> resources prog" where
  "gather_resources w substrings region =
     and_then (listing w region ListStacks
                 (\<lambda>h. gather_cloudformation_stacks substrings (list_stacks w h region))) (\<lambda>cfn.
     and_then (listing w region ListBuckets
                 (\<lambda>h. gather_s3_buckets substrings (buckets_all w h region))) (\<lambda>s3.
     and_then (listing w region DescribeRepositories
                 (\<lambda>h. gather_ecr_repositories substrings (describe_repositories w h region))) (\<lambda>ecr.
     and_then (listing w region ListFunctions
                 (\<lambda>h. gather_vpc_lambdas substrings (list_functions w h region))) (\<lambda>lambdas.
     and_then (listing w region ListTables
                 (\<lambda>h. gather_ddb_tables substrings (list_tables w h region))) (\<lambda>ddb.
     ret \<lparr>cloudformation_stacks = cfn, s3_buckets = s3, ecr_repositories = ecr,
          vpc_lambdas = lambdas, ddb_tables = ddb\<rparr>)))))"

text \<open>The unmanaged inventory is a dict read with \<open>.get(resource_type, [])\<close>.\<close>

definition gather_unmanaged_resources ::
  "world \<Rightarrow> string list option \<Rightarrow> string \<Rightarrow> (string \<times> string list) list prog" where
  "gather_unmanaged_resources w substrings region =
     and_then (listing w region ListBuckets
                 (\<lambda>h. gather_s3_buckets substrings (buckets_all w h region))) (\<lambda>s3.
     and_then (listing w region DescribeParameters
                 (\<lambda>h. gather_ssm_params substrings (describe_parameters w h region))) (\<lambda>ssm.
     and_then (listing w region DescribeLogGroups
                 (\<lambda>h. gather_log_groups substrings (describe_log_groups w h region))) (\<lambda>logs.
     ret [(''s3_buckets'', s3), (''ssm_params'', ssm), (''log_groups'', logs)])))"

section \<open>Emptying, deleting, updating\<close>

definition empty_s3_buckets :: "world \<Rightarrow> string list \<Rightarrow> string \<Rightarrow> unit prog" where
  "empty_s3_buckets w bucket_names region =
     for_prog (\<lambda>bucket_name.
        and_then (call w region (ObjectVersionsDelete bucket_name)) (\<lambda>u.
        secho (''Emptied S3 bucket: '' @ bucket_name) (Some Red)))
       bucket_names"

definition empty_ecr_repositories :: "world \<Rightarrow> string list \<Rightarrow> string \<Rightarrow> unit prog" where
  "empty_ecr_repositories w repository_names region =
     for_prog (\<lambda>repo_name.
        and_then (call_for w region (ListImages repo_name)
                    (\<lambda>h. list_images w h region repo_name)) (\<lambda>image_ids.
        if image_ids \<noteq> [] then
          and_then (call w region (BatchDeleteImage repo_name image_ids)) (\<lambda>u.
          secho (''Emptied ECR repository: '' @ repo_name) (Some Red))
        else ret ()))
       repository_names"

text \<open>
  \<open>except ClientError as e\<close>: any other exception of the body (the waiter's, for one)
  is left uncaught.
\<close>

definition delete_cloudformation_stack :: "world \<Rightarrow> string \<Rightarrow> string \<Rightarrow> unit prog" where
  "delete_cloudformation_stack w stack_name region =
     try_except
       (and_then (call w region (DeleteStack stack_name)) (\<lambda>u.
        and_then (secho (''Initiated deletion of CloudFormation stack: '' @ stack_name)
                    (Some Yellow)) (\<lambda>u.
        and_then (secho (''Waiting for stack '' @ stack_name @ '' to be deleted...'')
                    (Some Yellow)) (\<lambda>u.
        and_then (call w region (WaitStackDeleteComplete stack_name)) (\<lambda>u.
        secho (''CloudFormation stack '' @ stack_name @ '' deleted successfully.'')
          (Some Green))))))
       (\<lambda>e. case e of
          ClientError code message text \<Rightarrow>
            if code = ''ValidationError'' \<and> sublist ''does not exist'' message
            then secho (''CloudFormation stack '' @ stack_name
                          @ '' does not exist or is already deleted.'') (Some Yellow)
            else raise_for_click (''Failed to delete CloudFormation stack '' @ stack_name
                                    @ '': '' @ str_exn e)
        | TypeError text \<Rightarrow> raise (Raised e)
        | OtherException text \<Rightarrow> raise (Raised e))"

definition delete_s3_bucket :: "world \<Rightarrow> string \<Rightarrow> string \<Rightarrow> unit prog" where
  "delete_s3_bucket w bucket_name region =
     try_except
       (and_then (call w region (ObjectVersionsDelete bucket_name)) (\<lambda>u.
        and_then (call w region (BucketDelete bucket_name)) (\<lambda>u.
        secho (''Deleted S3 bucket: '' @ bucket_name) (Some Red))))
       (\<lambda>e. raise_for_click (''Failed to delete S3 bucket '' @ bucket_name @ '': '' @ str_exn e))"

definition delete_ecr_repository :: "world \<Rightarrow> string \<Rightarrow> string \<Rightarrow> unit prog" where
  "delete_ecr_repository w repo_name region =
     try_except
       (and_then (call w region (DeleteRepository repo_name)) (\<lambda>u.
        secho (''Deleted ECR repository: '' @ repo_name) (Some Red)))
       (\<lambda>e. raise_for_click
               (''Failed to delete ECR repository '' @ repo_name @ '': '' @ str_exn e))"

definition delete_ssm_param :: "world \<Rightarrow> string \<Rightarrow> string \<Rightarrow> unit prog" where
  "delete_ssm_param w param_name region =
     try_except
       (and_then (call w region (DeleteParameter param_name)) (\<lambda>u.
        secho (''Deleted SSM Parameter: '' @ param_name) (Some Red)))
       (\<lambda>e. raise_for_click
               (''Failed to delete SSM Parameter '' @ param_name @ '': '' @ str_exn e))"

definition delete_log_group :: "world \<Rightarrow> string \<Rightarrow> string \<Rightarrow> unit prog" where
  "delete_log_group w log_group_name region =
     try_except
       (and_then (call w region (DeleteLogGroup log_group_name)) (\<lambda>u.
        secho (''Deleted Log Group: '' @ log_group_name) (Some Red)))
       (\<lambda>e. raise_for_click
               (''Failed to delete Log Group '' @ log_group_name @ '': '' @ str_exn e))"

definition update_lambda_vpc_config :: "world \<Rightarrow> string list \<Rightarrow> string \<Rightarrow> unit prog" where
  "update_lambda_vpc_config w lambda_functions region =
     for_prog (\<lambda>function_name.
        try_except
          (and_then (call w region (UpdateFunctionConfiguration function_name)) (\<lambda>u.
           secho (''Updated Lambda function '' @ apostrophe @ function_name @ apostrophe
                    @ '' to remove VPC configuration.'') (Some Yellow)))
          (\<lambda>e. secho (''Failed to update Lambda function '' @ apostrophe @ function_name
                         @ apostrophe @ '': '' @ str_exn e) None))
       lambda_functions"

definition remove_ddb_deletion_protection :: "world \<Rightarrow> string list \<Rightarrow> string \<Rightarrow> unit prog" where
  "remove_ddb_deletion_protection w table_names region =
     for_prog (\<lambda>table_name.
        try_except
          (and_then (call w region (UpdateTable table_name)) (\<lambda>u.
           secho (''Deletion protection disabled for DynamoDB table '' @ apostrophe
                    @ table_name @ apostrophe @ ''.'') (Some Yellow)))
          (\<lambda>e. secho (''Failed to disable deletion protection for DynamoDB table ''
                         @ apostrophe @ table_name @ apostrophe @ '': '' @ str_exn e)
                  (Some Red)))
       table_names"

definition delete_methods :: "(string \<times> (world \<Rightarrow> string \<Rightarrow> string \<Rightarrow> unit prog)) list" where
  "delete_methods =
     [(''cloudformation_stacks'', delete_cloudformation_stack),
      (''s3_buckets'', delete_s3_bucket),
      (''ecr_repositories'', delete_ecr_repository),
      (''ssm_params'', delete_ssm_param),
      (''log_groups'', delete_log_group)]"

definition delete_resources ::
  "world \<Rightarrow> (string \<times> string list) list \<Rightarrow> string \<Rightarrow> unit prog" where
  "delete_resources w resource_dict region =
     for_prog (\<lambda>(resource_type, resources).
        case map_of delete_methods resource_type of
          Some delete_method \<Rightarrow>
            for_prog (\<lambda>resource_name. delete_method w resource_name region) resources
        | None \<Rightarrow>
            secho (''No deletion method found for resource type: '' @ resource_type)
              (Some Yellow))
       resource_dict"

section \<open>The orchestrator \<open>cleanup_env\<close>\<close>

record ctx =
  REGION :: string
  ACCOUNT_ID :: string

text \<open>\<open>no_confirm or click.confirm(text, default=True)\<close>: with the flag the prompt is not asked.\<close>

definition no_confirm_or :: "world \<Rightarrow> bool \<Rightarrow> string \<Rightarrow> bool prog" where
  "no_confirm_or w no_confirm text = (if no_confirm then ret True else confirm w text)"

definition s3_prompt :: string where
  "s3_prompt = ''Do you want to proceed with emptying these S3 buckets?''"

definition ecr_prompt :: string where
  "ecr_prompt = ''Do you want to proceed with emptying these ECR repositories?''"

definition lambda_prompt :: string where
  "lambda_prompt = ''Do you want to proceed with patching these Lambdas?''"

definition ddb_prompt :: string where
  "ddb_prompt = ''Do you want to proceed with removing deletion protection from these tables?''"

definition cloudformation_prompt :: string where
  "cloudformation_prompt = ''Do you want to proceed with deleting these CloudFormation stacks?''"

definition proceed_prompt :: string where
  "proceed_prompt = ''Do you want to proceed?''"

text \<open>The five blocks of the managed pass, in the order of the source.\<close>

definition s3_step :: "world \<Rightarrow> bool \<Rightarrow> resources \<Rightarrow> string \<Rightarrow> unit prog" where
  "s3_step w no_confirm resources region =
     (if s3_buckets resources \<noteq> [] then
        and_then (secho ''The following S3 buckets will be emptied'' (Some Yellow)) (\<lambda>u.
        and_then (secho (join newline (s3_buckets resources)) (Some Red)) (\<lambda>u.
        and_then (no_confirm_or w no_confirm s3_prompt) (\<lambda>ok.
        if ok then empty_s3_buckets w (s3_buckets resources) region else ret ())))
      else secho ''No S3 buckets'' (Some Yellow))"

definition ecr_step :: "world \<Rightarrow> bool \<Rightarrow> resources \<Rightarrow> string \<Rightarrow> unit prog" where
  "ecr_step w no_confirm resources region =
     (if ecr_repositories resources \<noteq> [] then
        and_then (secho ''The following ECR repositories will be emptied:'' (Some Yellow)) (\<lambda>u.
        and_then (secho (join newline (ecr_repositories resources)) (Some Red)) (\<lambda>u.
        and_then (no_confirm_or w no_confirm ecr_prompt) (\<lambda>ok.
        if ok then empty_ecr_repositories w (ecr_repositories resources) region else ret ())))
      else secho ''No ECR repositories'' (Some Yellow))"

definition lambda_step :: "world \<Rightarrow> bool \<Rightarrow> resources \<Rightarrow> string \<Rightarrow> unit prog" where
  "lambda_step w no_confirm resources region =
     (if vpc_lambdas resources \<noteq> [] then
        and_then (secho
          ''The following Lambda functions will have their VPC configuration removed:''
          (Some Yellow)) (\<lambda>u.
        and_then (secho (join newline (vpc_lambdas resources)) (Some Red)) (\<lambda>u.
        and_then (no_confirm_or w no_confirm lambda_prompt) (\<lambda>ok.
        if ok then update_lambda_vpc_config w (vpc_lambdas resources) region else ret ())))
      else secho ''No Lambda functions in VPC'' (Some Yellow))"

definition ddb_step :: "world \<Rightarrow> bool \<Rightarrow> resources \<Rightarrow> string \<Rightarrow> unit prog" where
  "ddb_step w no_confirm resources region =
     (if ddb_tables resources \<noteq> [] then
        and_then (secho
          ''The following DynamoDB tables will have their deletion protection removed:''
          (Some Yellow)) (\<lambda>u.
        and_then (secho (join newline (ddb_tables resources)) (Some Red)) (\<lambda>u.
        and_then (no_confirm_or w no_confirm ddb_prompt) (\<lambda>ok.
        if ok then remove_ddb_deletion_protection w (ddb_tables resources) region
        else ret ())))
      else ret ())"

definition cloudformation_step :: "world \<Rightarrow> bool \<Rightarrow> resources \<Rightarrow> string \<Rightarrow> unit prog" where
  "cloudformation_step w no_confirm resources region =
     (if cloudformation_stacks resources \<noteq> [] then
        and_then (secho ''The following CloudFormation stacks will be deleted:''
                    (Some Yellow)) (\<lambda>u.
        and_then (secho (join newline (cloudformation_stacks resources)) (Some Red)) (\<lambda>u.
        and_then (no_confirm_or w no_confirm cloudformation_prompt) (\<lambda>ok.
        if ok then
          delete_resources w [(''cloudformation_stacks'', cloudformation_stacks resources)]
            region
        else raise Abort)))
      else secho ''No CloudFormation stacks'' (Some Yellow))"

text \<open>
  The loop of the second pass, over \<open>delete_methods.items()\<close>, for a given unmanaged
  inventory.
\<close>

definition unmanaged_loop ::
  "world \<Rightarrow> bool \<Rightarrow> (string \<times> string list) list \<Rightarrow> string \<Rightarrow> unit prog" where
  "unmanaged_loop w no_confirm unmanaged_resources region =
     for_prog (\<lambda>(resource_type, delete_function).
        let resources = (case map_of unmanaged_resources resource_type of
                           None \<Rightarrow> [] | Some rs \<Rightarrow> rs) in
        if resources \<noteq> [] then
          and_then (secho (''The following '' @ resource_type @ '' will be deleted:'')
                      (Some Yellow)) (\<lambda>u.
          and_then (secho (join newline resources) (Some Red)) (\<lambda>u.
          and_then (no_confirm_or w no_confirm
                      (''Do you want to proceed with deleting these '' @ resource_type @ ''?''))
            (\<lambda>ok.
          if ok then
            for_prog (\<lambda>resource_name. delete_function w resource_name region) resources
          else ret ())))
        else ret ())
       delete_methods"

text \<open>The second pass: gather the unmanaged inventory, then the loop.\<close>

definition unmanaged_pass ::
  "world \<Rightarrow> bool \<Rightarrow> string list option \<Rightarrow> string \<Rightarrow> unit prog" where
  "unmanaged_pass w no_confirm substrings region =
     and_then (gather_unmanaged_resources w substrings region) (\<lambda>unmanaged_resources.
     unmanaged_loop w no_confirm unmanaged_resources region)"

text \<open>The managed pass: gather, then the five blocks.\<close>

definition managed_pass ::
  "world \<Rightarrow> bool \<Rightarrow> string list option \<Rightarrow> string \<Rightarrow> unit prog" where
  "managed_pass w no_confirm substrings region =
     and_then (gather_resources w substrings region) (\<lambda>resources.
     and_then (s3_step w no_confirm resources region) (\<lambda>u.
     and_then (ecr_step w no_confirm resources region) (\<lambda>u.
     and_then (lambda_step w no_confirm resources region) (\<lambda>u.
     and_then (ddb_step w no_confirm resources region) (\<lambda>u.
     cloudformation_step w no_confirm resources region)))))"

definition cleanup_env ::
  "world \<Rightarrow> ctx \<Rightarrow> bool \<Rightarrow> string list option \<Rightarrow> unit prog" where
  "cleanup_env w c no_confirm env_list =
     (let region = REGION c; account_id = ACCOUNT_ID c; substrings = env_list in
      and_then (secho (''Cleaning up: '' @ str_substrings w substrings @ '' in ''
                         @ account_id @ '':'' @ region) (Some Red)) (\<lambda>u.
      and_then (confirm w proceed_prompt) (\<lambda>proceed.
      if proceed then
        and_then (managed_pass w no_confirm substrings region) (\<lambda>u.
        and_then (unmanaged_pass w no_confirm substrings region) (\<lambda>u.
        secho (''Cleaned up: '' @ str_substrings w substrings) (Some Green)))
      else ret ())))"

section \<open>Vocabulary of the properties\<close>

text \<open>The provider calls among some events, in order.\<close>

fun calls_of :: "event list \<Rightarrow> api_call list" where
  "calls_of [] = []"
| "calls_of (Call region c # es) = c # calls_of es"
| "calls_of (Echo s # es) = calls_of es"
| "calls_of (Confirm text # es) = calls_of es"

text \<open>
  Whatever has happened before, every event a piece of the program adds satisfies \<open>P\<close>;
  and: whatever has happened before, the piece does not end in \<open>Abort\<close>.
\<close>

definition emits :: "(event \<Rightarrow> bool) \<Rightarrow> 'a prog \<Rightarrow> bool" where
  "emits P m \<longleftrightarrow> (\<forall>h. list_all P (fst (m h)))"

definition never_aborts :: "'a prog \<Rightarrow> bool" where
  "never_aborts m \<longleftrightarrow> (\<forall>h. snd (m h) \<noteq> Inl Abort)"

text \<open>
  Worlds for the examples. In \<open>calm_world\<close> there is nothing to list, every call
  succeeds and the user says yes; substrings print as Python prints a list of plain
  names.
\<close>

definition str_list_example :: "string list option \<Rightarrow> string" where
  "str_list_example substrings =
     (case substrings of
        None \<Rightarrow> ''None''
      | Some xs \<Rightarrow> ''['' @ join '', '' (map (\<lambda>x. apostrophe @ x @ apostrophe) xs) @ '']'')"

definition calm_world :: world where
  "calm_world =
     \<lparr>api_error = (\<lambda>h region c. None),
      list_stacks = (\<lambda>h region. []),
      buckets_all = (\<lambda>h region. []),
      list_tables = (\<lambda>h region. []),
      describe_repositories = (\<lambda>h region. []),
      describe_log_groups = (\<lambda>h region. []),
      describe_parameters = (\<lambda>h region. []),
      list_functions = (\<lambda>h region. []),
      list_images = (\<lambda>h region repo. []),
      confirm_answer = (\<lambda>h text. True),
      str_substrings = str_list_example\<rparr>"

text \<open>
  The events by which the CloudFormation or the ECR deleter would show in the second
  pass: their provider calls and the prompt of the loop for their resource type.
\<close>

fun cloudformation_or_ecr_deletion :: "event \<Rightarrow> bool" where
  "cloudformation_or_ecr_deletion (Call region (DeleteStack n)) = True"
| "cloudformation_or_ecr_deletion (Call region (WaitStackDeleteComplete n)) = True"
| "cloudformation_or_ecr_deletion (Call region (DeleteRepository n)) = True"
| "cloudformation_or_ecr_deletion (Call region c) = False"
| "cloudformation_or_ecr_deletion (Confirm text) =
     (text = ''Do you want to proceed with deleting these cloudformation_stacks?'' \<or>
      text = ''Do you want to proceed with deleting these ecr_repositories?'')"
| "cloudformation_or_ecr_deletion (Echo s) = False"

text \<open>A world with something of every kind in it; every call succeeds, the user says yes.\<close>

definition busy_world :: world where
  "busy_world =
     \<lparr>api_error = (\<lambda>h region c. None),
      list_stacks = (\<lambda>h region.
        [[\<lparr>StackName = ''env-a-db'', StackStatus = ''CREATE_COMPLETE'', ParentId = None,
           CreationTime = 1\<rparr>,
          \<lparr>StackName = ''env-a-app'', StackStatus = ''UPDATE_COMPLETE'', ParentId = None,
           CreationTime = 2\<rparr>]]),
      buckets_all = (\<lambda>h region. [\<lparr>name = ''env-a-assets''\<rparr>, \<lparr>name = ''shared''\<rparr>]),
      list_tables = (\<lambda>h region. [[''env-a-table'']]),
      describe_repositories = (\<lambda>h region. [[\<lparr>repositoryName = ''env-a-repo''\<rparr>]]),
      describe_log_groups = (\<lambda>h region. [[\<lparr>logGroupName = ''/aws/lambda/env-a-fn''\<rparr>]]),
      describe_parameters = (\<lambda>h region. [[\<lparr>Name = ''/env-a/db/url''\<rparr>]]),
      list_functions = (\<lambda>h region.
        [[\<lparr>FunctionName = ''env-a-fn'', VpcConfig = Some \<lparr>VpcId = Some ''vpc-1''\<rparr>\<rparr>]]),
      list_images = (\<lambda>h region repo. [''sha256:0a'']),
      confirm_answer = (\<lambda>h text. True),
      str_substrings = str_list_example\<rparr>"

text \<open>
  The events of a run that gathers and does nothing else: listing calls, output, and
  the opening question.
\<close>

fun listing_call :: "api_call \<Rightarrow> bool" where
  "listing_call ListStacks = True"
| "listing_call ListBuckets = True"
| "listing_call ListTables = True"
| "listing_call DescribeRepositories = True"
| "listing_call DescribeLogGroups = True"
| "listing_call DescribeParameters = True"
| "listing_call ListFunctions = True"
| "listing_call c = False"

fun gathers_only :: "event \<Rightarrow> bool" where
  "gathers_only (Call region c) = listing_call c"
| "gathers_only (Echo s) = True"
| "gathers_only (Confirm text) = (text = proceed_prompt)"

text \<open>The only question of a run under \<open>no_confirm\<close>: the opening one.\<close>

fun only_opening_prompt :: "event \<Rightarrow> bool" where
  "only_opening_prompt (Confirm text) = (text = proceed_prompt)"
| "only_opening_prompt (Call region c) = True"
| "only_opening_prompt (Echo s) = True"

text \<open>
  Two properties of a piece of the program. It ends in \<open>Abort\<close> only by a declined
  CloudFormation prompt, asked last and without \<open>no_confirm\<close>; and, for a user who
  declines that prompt: once the prompt is asked, the piece ends there, in \<open>Abort\<close>.
\<close>

definition aborts_only_on_decline :: "world \<Rightarrow> bool \<Rightarrow> 'a prog \<Rightarrow> bool" where
  "aborts_only_on_decline w no_confirm m \<longleftrightarrow>
     (\<forall>h. snd (m h) = Inl Abort \<longrightarrow>
        \<not> no_confirm \<and>
        (\<exists>es. fst (m h) = es @ [Confirm cloudformation_prompt] \<and>
              \<not> confirm_answer w (h @ es) cloudformation_prompt))"

definition decline_ends :: "'a prog \<Rightarrow> bool" where
  "decline_ends m \<longleftrightarrow>
     (\<forall>h. Confirm cloudformation_prompt \<in> set (fst (m h)) \<longrightarrow>
        snd (m h) = Inl Abort \<and> last (fst (m h)) = Confirm cloudformation_prompt)"

text \<open>The two lines a block prints before it asks: a title, then the names.\<close>

definition heading :: "string \<Rightarrow> string list \<Rightarrow> event list" where
  "heading title names =
     [Echo (Styled title (Some Yellow)), Echo (Styled (join newline names) (Some Red))]"

section \<open>Properties of the gatherers\<close>

lemma for_each_collect:
  assumes "\<And>x acc. body x acc = Inr (if P x then acc @ [f x] else acc)"
  shows "for_each body xs acc = Inr (acc @ map f (filter P xs))"
  by (induction xs arbitrary: acc) (simp_all add: assms)

lemma for_each_pages:
  assumes "\<And>page acc. body page acc = Inr (acc @ g page)"
  shows "for_each body pages acc = Inr (acc @ concat (map g pages))"
  by (induction pages arbitrary: acc) (simp_all add: assms)

lemma for_each_pages_collect:
  assumes "\<And>x acc. body x acc = Inr (if P x then acc @ [f x] else acc)"
  shows "for_each (\<lambda>page. for_each body page) pages acc
           = Inr (acc @ map f (filter P (concat pages)))"
proof -
  have "for_each (\<lambda>page. for_each body page) pages acc
          = Inr (acc @ concat (map (\<lambda>page. map f (filter P page)) pages))"
    by (rule for_each_pages) (rule for_each_collect [OF assms])
  also have "concat (map (\<lambda>page. map f (filter P page)) pages) = map f (filter P (concat pages))"
    by (induction pages) simp_all
  finally show ?thesis .
qed

lemma ssm_first_match_eq:
  "ssm_first_match subs n acc =
     (if list_ex (\<lambda>sub. prefix (''/'' @ sub @ ''/'') n) subs then acc @ [n] else acc)"
  by (induction subs) simp_all

lemma status_values_checked:
  "list_all (\<lambda>st. sublist ''DELETE_COMPLETE'' st \<longleftrightarrow> st = ''DELETE_COMPLETE'')
     stack_status_values"
  by code_simp

lemma status_values_delete_complete:
  "st \<in> set stack_status_values \<Longrightarrow>
     sublist ''DELETE_COMPLETE'' st \<longleftrightarrow> st = ''DELETE_COMPLETE''"
  using status_values_checked by (simp only: list_all_iff)

lemma sorted_reverse_mset: "mset (sorted_reverse key xs) = mset xs"
  by (simp add: sorted_reverse_def)

lemma sorted_reverse_desc: "sorted_wrt (\<lambda>a b. key b \<le> key a) (sorted_reverse key xs)"
proof -
  have "sorted (map (\<lambda>x. - key x) (sorted_reverse key xs))"
    by (simp add: sorted_reverse_def)
  then show ?thesis
    by (simp add: sorted_map sorted_wrt_iff_nth_less)
qed

lemma gather_cloudformation_stacks_Some:
  "gather_cloudformation_stacks (Some substrings) pages =
     Inr (map fst (sorted_reverse snd (map (\<lambda>s. (StackName s, CreationTime s))
       (filter (\<lambda>s. \<not> sublist ''DELETE_COMPLETE'' (StackStatus s) \<and> ParentId s = None \<and>
                    (\<exists>sub\<in>set substrings. sublist sub (StackName s))) (concat pages)))))"
  unfolding gather_cloudformation_stacks_def
  by (subst for_each_pages_collect
        [where P = "\<lambda>s. \<not> sublist ''DELETE_COMPLETE'' (StackStatus s) \<and> ParentId s = None \<and>
                    (\<exists>sub\<in>set substrings. sublist sub (StackName s))"
           and f = "\<lambda>s. (StackName s, CreationTime s)"])
     (auto simp: list_ex_iff)

lemma gather_s3_buckets_Some:
  "gather_s3_buckets (Some substrings) all_buckets =
     Inr (filter (\<lambda>n. \<exists>sub\<in>set substrings. sublist sub n) (map name all_buckets))"
  unfolding gather_s3_buckets_def
  by (subst for_each_collect
        [where P = "\<lambda>b. \<exists>sub\<in>set substrings. sublist sub (name b)" and f = name])
     (auto simp: list_ex_iff filter_map comp_def)

lemma gather_ddb_tables_Some:
  "gather_ddb_tables (Some substrings) pages =
     Inr (filter (\<lambda>n. \<exists>sub\<in>set substrings. sublist sub n) (concat pages))"
  unfolding gather_ddb_tables_def
  by (subst for_each_pages_collect
        [where P = "\<lambda>n. \<exists>sub\<in>set substrings. sublist sub n" and f = "\<lambda>n. n"])
     (auto simp: list_ex_iff)

lemma gather_ecr_repositories_Some:
  "gather_ecr_repositories (Some substrings) pages =
     Inr (filter (\<lambda>n. \<exists>sub\<in>set substrings. sublist sub n) (map repositoryName (concat pages)))"
  unfolding gather_ecr_repositories_def
  by (subst for_each_pages_collect
        [where P = "\<lambda>r. \<exists>sub\<in>set substrings. sublist sub (repositoryName r)"
           and f = repositoryName])
     (auto simp: list_ex_iff filter_map comp_def)

lemma gather_log_groups_Some:
  "gather_log_groups (Some substrings) pages =
     Inr (filter (\<lambda>n. \<exists>sub\<in>set substrings. sublist sub n) (map logGroupName (concat pages)))"
  unfolding gather_log_groups_def
  by (subst for_each_pages_collect
        [where P = "\<lambda>g. \<exists>sub\<in>set substrings. sublist sub (logGroupName g)"
           and f = logGroupName])
     (auto simp: list_ex_iff filter_map comp_def)

lemma gather_ssm_params_Some:
  "gather_ssm_params (Some substrings) pages =
     Inr (filter (\<lambda>n. \<exists>sub\<in>set substrings. prefix (''/'' @ sub @ ''/'') n)
            (map Name (concat pages)))"
  unfolding gather_ssm_params_def
  by (subst for_each_pages_collect
        [where P = "\<lambda>p. \<exists>sub\<in>set substrings. prefix (''/'' @ sub @ ''/'') (Name p)"
           and f = Name])
     (auto simp: list_ex_iff filter_map comp_def ssm_first_match_eq)

lemma gather_vpc_lambdas_Some:
  "gather_vpc_lambdas (Some substrings) pages =
     Inr (map FunctionName
       (filter (\<lambda>f. (\<exists>sub\<in>set substrings. sublist sub (FunctionName f)) \<and>
                     (\<exists>vc v. VpcConfig f = Some vc \<and> VpcId vc = Some v \<and> v \<noteq> []))
               (concat pages)))"
  unfolding gather_vpc_lambdas_def
  by (subst for_each_pages_collect
        [where P = "\<lambda>f. (\<exists>sub\<in>set substrings. sublist sub (FunctionName f)) \<and>
                     (\<exists>vc v. VpcConfig f = Some vc \<and> VpcId vc = Some v \<and> v \<noteq> [])"
           and f = FunctionName])
     (auto simp: list_ex_iff split: option.splits)

text \<open>
  C1. For stack summaries as the provider returns them (every status one of the
  provider's values), \<open>gather_cloudformation_stacks\<close> returns the names of exactly the
  stacks whose status is not \<open>DELETE_COMPLETE\<close>, that have no \<open>ParentId\<close> and whose
  name contains one of the substrings (as a multiset: each such stack once), and of
  two gathered stacks the one created later comes first.
\<close>

theorem gather_cloudformation_stacks_filtered_sorted:
  assumes "\<forall>stack\<in>set (concat pages). StackStatus stack \<in> set stack_status_values"
  shows "\<exists>infos.
     gather_cloudformation_stacks (Some substrings) pages = Inr (map fst infos) \<and>
     mset infos = mset (map (\<lambda>s. (StackName s, CreationTime s))
        (filter (\<lambda>s. StackStatus s \<noteq> ''DELETE_COMPLETE'' \<and> ParentId s = None \<and>
                     (\<exists>sub\<in>set substrings. sublist sub (StackName s))) (concat pages))) \<and>
     (\<forall>i<length infos. \<forall>j<length infos. snd (infos ! j) < snd (infos ! i) \<longrightarrow> i < j)"
proof -
  let ?code = "\<lambda>s. \<not> sublist ''DELETE_COMPLETE'' (StackStatus s) \<and> ParentId s = None \<and>
                    (\<exists>sub\<in>set substrings. sublist sub (StackName s))"
  let ?claim = "\<lambda>s. StackStatus s \<noteq> ''DELETE_COMPLETE'' \<and> ParentId s = None \<and>
                    (\<exists>sub\<in>set substrings. sublist sub (StackName s))"
  let ?infos = "sorted_reverse snd (map (\<lambda>s. (StackName s, CreationTime s))
                  (filter ?code (concat pages)))"
  have same: "filter ?code (concat pages) = filter ?claim (concat pages)"
    by (rule filter_cong [OF refl]) (use assms status_values_delete_complete in blast)
  have res: "gather_cloudformation_stacks (Some substrings) pages = Inr (map fst ?infos)"
    by (rule gather_cloudformation_stacks_Some)
  have ms: "mset ?infos = mset (map (\<lambda>s. (StackName s, CreationTime s))
              (filter ?claim (concat pages)))"
    by (simp only: sorted_reverse_mset same)
  have desc: "sorted_wrt (\<lambda>a b. snd b \<le> snd a) ?infos"
    by (rule sorted_reverse_desc)
  have ord: "\<forall>i<length ?infos. \<forall>j<length ?infos. snd (?infos ! j) < snd (?infos ! i) \<longrightarrow> i < j"
  proof (intro allI impI)
    fix i j
    assume i: "i < length ?infos" and j: "j < length ?infos"
      and lt: "snd (?infos ! j) < snd (?infos ! i)"
    show "i < j"
    proof (rule ccontr)
      assume "\<not> i < j"
      then have "j < i \<or> j = i" by arith
      then show False
      proof
        assume "j < i"
        with desc i have "snd (?infos ! i) \<le> snd (?infos ! j)"
          by (simp only: sorted_wrt_iff_nth_less)
        with lt show False by simp
      next
        assume "j = i"
        with lt show False by simp
      qed
    qed
  qed
  from res ms ord show ?thesis by blast
qed

theorem gather_cloudformation_stacks_filtered_sorted_witness:
  "\<exists>infos.
     gather_cloudformation_stacks (Some [''env-a''])
       [[\<lparr>StackName = ''env-a-db'', StackStatus = ''CREATE_COMPLETE'', ParentId = None,
          CreationTime = 1\<rparr>,
         \<lparr>StackName = ''env-a-old'', StackStatus = ''DELETE_COMPLETE'', ParentId = None,
          CreationTime = 0\<rparr>],
        [\<lparr>StackName = ''env-a-app'', StackStatus = ''UPDATE_COMPLETE'', ParentId = None,
          CreationTime = 2\<rparr>,
         \<lparr>StackName = ''env-a-nested'', StackStatus = ''CREATE_COMPLETE'',
          ParentId = Some ''env-a-app'', CreationTime = 3\<rparr>,
         \<lparr>StackName = ''env-b-app'', StackStatus = ''CREATE_COMPLETE'', ParentId = None,
          CreationTime = 4\<rparr>]] = Inr (map fst infos) \<and>
     mset infos = {#(''env-a-db'', 1::int), (''env-a-app'', 2)#} \<and>
     (\<forall>i<length infos. \<forall>j<length infos. snd (infos ! j) < snd (infos ! i) \<longrightarrow> i < j)"
  using gather_cloudformation_stacks_filtered_sorted [of
       "[[\<lparr>StackName = ''env-a-db'', StackStatus = ''CREATE_COMPLETE'', ParentId = None,
          CreationTime = 1\<rparr>,
         \<lparr>StackName = ''env-a-old'', StackStatus = ''DELETE_COMPLETE'', ParentId = None,
          CreationTime = 0\<rparr>],
        [\<lparr>StackName = ''env-a-app'', StackStatus = ''UPDATE_COMPLETE'', ParentId = None,
          CreationTime = 2\<rparr>,
         \<lparr>StackName = ''env-a-nested'', StackStatus = ''CREATE_COMPLETE'',
          ParentId = Some ''env-a-app'', CreationTime = 3\<rparr>,
         \<lparr>StackName = ''env-b-app'', StackStatus = ''CREATE_COMPLETE'', ParentId = None,
          CreationTime = 4\<rparr>]]" "[''env-a'']"]
  by (simp add: stack_status_values_def sublist_code)

text \<open>
  C2. Whatever the substring list (empty or not), the S3, DynamoDB, ECR and log group
  gatherers return, in the provider's order, exactly the names that contain one of the
  substrings; the SSM gatherer returns exactly the names that start with
  \<open>/{sub}/\<close> for one of the substrings \<open>sub\<close>.
\<close>

theorem gatherers_substring_filter:
  "gather_s3_buckets (Some substrings) all_buckets =
     Inr (filter (\<lambda>n. \<exists>sub\<in>set substrings. sublist sub n) (map name all_buckets)) \<and>
   gather_ddb_tables (Some substrings) table_pages =
     Inr (filter (\<lambda>n. \<exists>sub\<in>set substrings. sublist sub n) (concat table_pages)) \<and>
   gather_ecr_repositories (Some substrings) repo_pages =
     Inr (filter (\<lambda>n. \<exists>sub\<in>set substrings. sublist sub n)
            (map repositoryName (concat repo_pages))) \<and>
   gather_log_groups (Some substrings) log_pages =
     Inr (filter (\<lambda>n. \<exists>sub\<in>set substrings. sublist sub n)
            (map logGroupName (concat log_pages))) \<and>
   gather_ssm_params (Some substrings) param_pages =
     Inr (filter (\<lambda>n. \<exists>sub\<in>set substrings. prefix (''/'' @ sub @ ''/'') n)
            (map Name (concat param_pages)))"
  by (simp only: gather_s3_buckets_Some gather_ddb_tables_Some gather_ecr_repositories_Some
        gather_log_groups_Some gather_ssm_params_Some simp_thms)

theorem gatherers_substring_filter_witness:
  "gather_s3_buckets (Some [''env-a'', ''env-b''])
     [\<lparr>name = ''logs-env-a''\<rparr>, \<lparr>name = ''other''\<rparr>, \<lparr>name = ''env-b-data''\<rparr>]
     = Inr [''logs-env-a'', ''env-b-data''] \<and>
   gather_ddb_tables (Some [''env-a'', ''env-b'']) [[''t-env-a''], [''env'', ''env-b'']]
     = Inr [''t-env-a'', ''env-b''] \<and>
   gather_ecr_repositories (Some [''env-a'', ''env-b''])
     [[\<lparr>repositoryName = ''x/env-a/img''\<rparr>], [\<lparr>repositoryName = ''env-c''\<rparr>]]
     = Inr [''x/env-a/img''] \<and>
   gather_log_groups (Some [''env-a'', ''env-b''])
     [[\<lparr>logGroupName = ''/aws/lambda/env-b-fn''\<rparr>, \<lparr>logGroupName = ''/aws/lambda/fn''\<rparr>]]
     = Inr [''/aws/lambda/env-b-fn''] \<and>
   gather_ssm_params (Some [''env-a'', ''env-b''])
     [[\<lparr>Name = ''/env-a/db/url''\<rparr>, \<lparr>Name = ''/app/env-a/key''\<rparr>, \<lparr>Name = ''/env-b''\<rparr>,
       \<lparr>Name = ''/env-b/x''\<rparr>]]
     = Inr [''/env-a/db/url'', ''/env-b/x'']"
  using gatherers_substring_filter [of "[''env-a'', ''env-b'']"
      "[\<lparr>name = ''logs-env-a''\<rparr>, \<lparr>name = ''other''\<rparr>, \<lparr>name = ''env-b-data''\<rparr>]"
      "[[''t-env-a''], [''env'', ''env-b'']]"
      "[[\<lparr>repositoryName = ''x/env-a/img''\<rparr>], [\<lparr>repositoryName = ''env-c''\<rparr>]]"
      "[[\<lparr>logGroupName = ''/aws/lambda/env-b-fn''\<rparr>, \<lparr>logGroupName = ''/aws/lambda/fn''\<rparr>]]"
      "[[\<lparr>Name = ''/env-a/db/url''\<rparr>, \<lparr>Name = ''/app/env-a/key''\<rparr>, \<lparr>Name = ''/env-b''\<rparr>,
       \<lparr>Name = ''/env-b/x''\<rparr>]]"]
  by (simp add: sublist_code)

text \<open>
  C6. \<open>gather_vpc_lambdas\<close> returns, in the provider's order, exactly the names of the
  functions whose name contains one of the substrings and whose \<open>VpcConfig\<close> is present
  with a \<open>VpcId\<close> that is present and not empty.
\<close>

theorem gather_vpc_lambdas_filter:
  "gather_vpc_lambdas (Some substrings) pages =
     Inr (map FunctionName
       (filter (\<lambda>f. (\<exists>sub\<in>set substrings. sublist sub (FunctionName f)) \<and>
                     (\<exists>vc v. VpcConfig f = Some vc \<and> VpcId vc = Some v \<and> v \<noteq> []))
               (concat pages)))"
  by (rule gather_vpc_lambdas_Some)

theorem gather_vpc_lambdas_filter_witness:
  "gather_vpc_lambdas (Some [''env-a''])
     [[\<lparr>FunctionName = ''env-a-in-vpc'', VpcConfig = Some \<lparr>VpcId = Some ''vpc-1''\<rparr>\<rparr>,
       \<lparr>FunctionName = ''env-a-empty-id'', VpcConfig = Some \<lparr>VpcId = Some []\<rparr>\<rparr>],
      [\<lparr>FunctionName = ''env-a-no-id'', VpcConfig = Some \<lparr>VpcId = None\<rparr>\<rparr>,
       \<lparr>FunctionName = ''env-a-no-config'', VpcConfig = None\<rparr>,
       \<lparr>FunctionName = ''other-in-vpc'', VpcConfig = Some \<lparr>VpcId = Some ''vpc-1''\<rparr>\<rparr>]]
   = Inr [''env-a-in-vpc'']"
  using gather_vpc_lambdas_filter [of "[''env-a'']"
     "[[\<lparr>FunctionName = ''env-a-in-vpc'', VpcConfig = Some \<lparr>VpcId = Some ''vpc-1''\<rparr>\<rparr>,
       \<lparr>FunctionName = ''env-a-empty-id'', VpcConfig = Some \<lparr>VpcId = Some []\<rparr>\<rparr>],
      [\<lparr>FunctionName = ''env-a-no-id'', VpcConfig = Some \<lparr>VpcId = None\<rparr>\<rparr>,
       \<lparr>FunctionName = ''env-a-no-config'', VpcConfig = None\<rparr>,
       \<lparr>FunctionName = ''other-in-vpc'', VpcConfig = Some \<lparr>VpcId = Some ''vpc-1''\<rparr>\<rparr>]]"]
  by (simp add: sublist_code)

text \<open>
  C8. The provider returns \<open>env-a-app\<close> created at time 2 and \<open>env-a-db\<close> created at
  time 1, both without parent and in any status but \<open>DELETE_COMPLETE\<close>; with the
  substring list \<open>["env-a"]\<close> the gatherer returns \<open>["env-a-app", "env-a-db"]\<close>.
\<close>

theorem gather_cloudformation_stacks_example:
  assumes "st1 \<in> set stack_status_values" and "st1 \<noteq> ''DELETE_COMPLETE''"
    and "st2 \<in> set stack_status_values" and "st2 \<noteq> ''DELETE_COMPLETE''"
  shows "gather_cloudformation_stacks (Some [''env-a''])
           [[\<lparr>StackName = ''env-a-app'', StackStatus = st1, ParentId = None, CreationTime = 2\<rparr>,
             \<lparr>StackName = ''env-a-db'', StackStatus = st2, ParentId = None, CreationTime = 1\<rparr>]]
         = Inr [''env-a-app'', ''env-a-db'']"
proof -
  have "\<not> sublist ''DELETE_COMPLETE'' st1" and "\<not> sublist ''DELETE_COMPLETE'' st2"
    using assms status_values_delete_complete by blast+
  then show ?thesis
    by (simp add: gather_cloudformation_stacks_def sorted_reverse_def sublist_code)
qed

theorem gather_cloudformation_stacks_example_witness:
  "gather_cloudformation_stacks (Some [''env-a''])
     [[\<lparr>StackName = ''env-a-app'', StackStatus = ''CREATE_COMPLETE'', ParentId = None,
        CreationTime = 2\<rparr>,
       \<lparr>StackName = ''env-a-db'', StackStatus = ''UPDATE_COMPLETE'', ParentId = None,
        CreationTime = 1\<rparr>]]
   = Inr [''env-a-app'', ''env-a-db'']"
  using gather_cloudformation_stacks_example [of "''CREATE_COMPLETE''" "''UPDATE_COMPLETE''"]
  by (simp add: stack_status_values_def)

section \<open>Properties of the deleters\<close>

lemma calls_of_append: "calls_of (es @ es') = calls_of es @ calls_of es'"
  by (induction es rule: calls_of.induct) simp_all

lemmas prog_defs =
  ret_def raise_def and_then_def try_except_def secho_def confirm_def call_for_def call_def
  raise_for_click_def

lemma for_prog_Cons_and_then:
  "for_prog body (x # xs) = and_then (body x) (\<lambda>u. for_prog body xs)"
  by (rule ext) (simp add: and_then_def split: prod.splits sum.splits)

lemma and_then_proj:
  "and_then m k h =
     (case snd (m h) of
        Inl f \<Rightarrow> (fst (m h), Inl f)
      | Inr x \<Rightarrow> (fst (m h) @ fst (k x (h @ fst (m h))), snd (k x (h @ fst (m h)))))"
  by (simp add: and_then_def split: prod.splits sum.splits)

lemma try_except_proj:
  "try_except body handler h =
     (case snd (body h) of
        Inl (Raised e) \<Rightarrow>
          (fst (body h) @ fst (handler e (h @ fst (body h))),
           snd (handler e (h @ fst (body h))))
      | Inl (ClickException s) \<Rightarrow> body h
      | Inl Abort \<Rightarrow> body h
      | Inr x \<Rightarrow> body h)"
  by (simp add: try_except_def split: prod.splits sum.splits failure.splits)

subsection \<open>What a piece of the program can emit\<close>

named_theorems emits_intros

lemma emits_ret [emits_intros]: "emits P (ret x)"
  by (simp add: emits_def ret_def)

lemma emits_raise [emits_intros]: "emits P (raise f)"
  by (simp add: emits_def raise_def)

lemma emits_raise_for_click [emits_intros]: "emits P (raise_for_click message)"
  by (simp add: emits_def raise_for_click_def raise_def)

lemma emits_secho [emits_intros]: "P (Echo (Styled text fg)) \<Longrightarrow> emits P (secho text fg)"
  by (simp add: emits_def secho_def)

lemma emits_confirm [emits_intros]: "P (Confirm text) \<Longrightarrow> emits P (confirm w text)"
  by (simp add: emits_def confirm_def)

lemma emits_no_confirm_or [emits_intros]:
  "(\<not> no_confirm \<Longrightarrow> P (Confirm text)) \<Longrightarrow> emits P (no_confirm_or w no_confirm text)"
  by (simp add: no_confirm_or_def emits_ret emits_confirm)

lemma emits_call_for [emits_intros]: "P (Call region c) \<Longrightarrow> emits P (call_for w region c resp)"
  by (simp add: emits_def call_for_def)

lemma emits_call [emits_intros]: "P (Call region c) \<Longrightarrow> emits P (call w region c)"
  by (simp add: call_def emits_call_for)

lemma emits_listing [emits_intros]: "P (Call region c) \<Longrightarrow> emits P (listing w region c g)"
  by (simp add: emits_def listing_def)

lemma emits_and_then [emits_intros]:
  assumes "emits P m" and "\<And>x. emits P (k x)"
  shows "emits P (and_then m k)"
  using assms by (simp add: emits_def and_then_proj split: sum.splits)

lemma emits_try_except [emits_intros]:
  assumes "emits P body" and "\<And>e. emits P (handler e)"
  shows "emits P (try_except body handler)"
  using assms by (simp add: emits_def try_except_proj split: sum.splits failure.splits)

lemma emits_for_prog [emits_intros]:
  assumes "\<And>x. emits P (body x)"
  shows "emits P (for_prog body xs)"
proof (induction xs)
  case Nil
  show ?case by (simp add: emits_def)
next
  case (Cons x xs)
  show ?case
    unfolding for_prog_Cons_and_then
    by (rule emits_and_then) (simp_all add: assms Cons.IH)
qed

lemma emits_if [emits_intros]:
  "(c \<Longrightarrow> emits P a) \<Longrightarrow> (\<not> c \<Longrightarrow> emits P b) \<Longrightarrow> emits P (if c then a else b)"
  by simp

subsection \<open>Which pieces can end in \<open>Abort\<close>\<close>

named_theorems never_aborts_intros

lemma never_aborts_ret [never_aborts_intros]: "never_aborts (ret x)"
  by (simp add: never_aborts_def ret_def)

lemma never_aborts_raise_for_click [never_aborts_intros]:
  "never_aborts (raise_for_click message)"
  by (simp add: never_aborts_def raise_for_click_def raise_def)

lemma never_aborts_raise_exn [never_aborts_intros]: "never_aborts (raise (Raised e))"
  by (simp add: never_aborts_def raise_def)

lemma never_aborts_secho [never_aborts_intros]: "never_aborts (secho text fg)"
  by (simp add: never_aborts_def secho_def)

lemma never_aborts_confirm [never_aborts_intros]: "never_aborts (confirm w text)"
  by (simp add: never_aborts_def confirm_def)

lemma never_aborts_no_confirm_or [never_aborts_intros]:
  "never_aborts (no_confirm_or w no_confirm text)"
  by (simp add: no_confirm_or_def never_aborts_ret never_aborts_confirm)

lemma never_aborts_call_for [never_aborts_intros]: "never_aborts (call_for w region c resp)"
  by (simp add: never_aborts_def call_for_def split: option.splits)

lemma never_aborts_call [never_aborts_intros]: "never_aborts (call w region c)"
  by (simp add: call_def never_aborts_call_for)

lemma never_aborts_listing [never_aborts_intros]: "never_aborts (listing w region c g)"
  by (simp add: never_aborts_def listing_def split: option.splits sum.splits)

lemma never_aborts_and_then [never_aborts_intros]:
  assumes "never_aborts m" and "\<And>x. never_aborts (k x)"
  shows "never_aborts (and_then m k)"
  using assms by (auto simp: never_aborts_def and_then_proj split: sum.splits)

lemma never_aborts_try_except [never_aborts_intros]:
  assumes "never_aborts body" and "\<And>e. never_aborts (handler e)"
  shows "never_aborts (try_except body handler)"
  using assms by (auto simp: never_aborts_def try_except_proj split: sum.splits failure.splits)

lemma never_aborts_for_prog [never_aborts_intros]:
  assumes "\<And>x. never_aborts (body x)"
  shows "never_aborts (for_prog body xs)"
proof (induction xs)
  case Nil
  show ?case by (simp add: never_aborts_def)
next
  case (Cons x xs)
  show ?case
    unfolding for_prog_Cons_and_then
    by (rule never_aborts_and_then) (simp_all add: assms Cons.IH)
qed

lemma never_aborts_if [never_aborts_intros]:
  "(c \<Longrightarrow> never_aborts a) \<Longrightarrow> (\<not> c \<Longrightarrow> never_aborts b) \<Longrightarrow>
     never_aborts (if c then a else b)"
  by simp


subsection \<open>The deleters\<close>

text \<open>
  C3. When \<open>delete_stack\<close> raises a \<open>ClientError\<close> whose code is \<open>ValidationError\<close> and
  whose message contains \<open>does not exist\<close>, \<open>delete_cloudformation_stack\<close> prints a line
  and returns; for any other \<open>ClientError\<close> it raises the \<open>ClickException\<close> of
  \<open>raise_for_click\<close>. The same holds for a \<open>ClientError\<close> raised while waiting.
\<close>

theorem delete_cloudformation_stack_client_error:
  "(api_error w h region (DeleteStack stack_name) = Some (ClientError code message text) \<longrightarrow>
      delete_cloudformation_stack w stack_name region h =
        (if code = ''ValidationError'' \<and> sublist ''does not exist'' message
         then ([Call region (DeleteStack stack_name),
                Echo (Styled (''CloudFormation stack '' @ stack_name
                              @ '' does not exist or is already deleted.'') (Some Yellow))],
               Inr ())
         else ([Call region (DeleteStack stack_name)],
               Inl (ClickException (Styled (''Failed to delete CloudFormation stack ''
                                            @ stack_name @ '': '' @ text) (Some Red)))))) \<and>
   (api_error w h region (DeleteStack stack_name) = None \<and>
    api_error w (h @ [Call region (DeleteStack stack_name),
                      Echo (Styled (''Initiated deletion of CloudFormation stack: ''
                                    @ stack_name) (Some Yellow)),
                      Echo (Styled (''Waiting for stack '' @ stack_name
                                    @ '' to be deleted...'') (Some Yellow))])
      region (WaitStackDeleteComplete stack_name) = Some (ClientError code message text) \<longrightarrow>
      snd (delete_cloudformation_stack w stack_name region h) =
        (if code = ''ValidationError'' \<and> sublist ''does not exist'' message
         then Inr ()
         else Inl (ClickException (Styled (''Failed to delete CloudFormation stack ''
                                           @ stack_name @ '': '' @ text) (Some Red)))))"
  by (simp add: delete_cloudformation_stack_def prog_defs)

theorem delete_cloudformation_stack_client_error_witness:
  "delete_cloudformation_stack
     (calm_world\<lparr>api_error := \<lambda>h region c.
        Some (ClientError ''ValidationError'' ''Stack with id env-a-app does not exist''
                ''An error occurred (ValidationError)'')\<rparr>)
     ''env-a-app'' ''eu-west-1'' []
   = ([Call ''eu-west-1'' (DeleteStack ''env-a-app''),
       Echo (Styled ''CloudFormation stack env-a-app does not exist or is already deleted.''
               (Some Yellow))],
      Inr ()) \<and>
   delete_cloudformation_stack
     (calm_world\<lparr>api_error := \<lambda>h region c.
        Some (ClientError ''AccessDenied'' ''not authorized'' ''An error occurred (AccessDenied)'')\<rparr>)
     ''env-a-app'' ''eu-west-1'' []
   = ([Call ''eu-west-1'' (DeleteStack ''env-a-app'')],
      Inl (ClickException (Styled
        ''Failed to delete CloudFormation stack env-a-app: An error occurred (AccessDenied)''
        (Some Red)))) \<and>
   snd (delete_cloudformation_stack
     (calm_world\<lparr>api_error := \<lambda>h region c.
        if c = WaitStackDeleteComplete ''env-a-app''
        then Some (ClientError ''ValidationError'' ''Stack with id env-a-app does not exist''
                     ''An error occurred (ValidationError)'')
        else None\<rparr>)
     ''env-a-app'' ''eu-west-1'' []) = Inr ()"
  using
    delete_cloudformation_stack_client_error [of
      "calm_world\<lparr>api_error := \<lambda>h region c.
        Some (ClientError ''ValidationError'' ''Stack with id env-a-app does not exist''
                ''An error occurred (ValidationError)'')\<rparr>"
      "[]" "''eu-west-1''" "''env-a-app''" "''ValidationError''"
      "''Stack with id env-a-app does not exist''" "''An error occurred (ValidationError)''"]
    delete_cloudformation_stack_client_error [of
      "calm_world\<lparr>api_error := \<lambda>h region c.
        Some (ClientError ''AccessDenied'' ''not authorized'' ''An error occurred (AccessDenied)'')\<rparr>"
      "[]" "''eu-west-1''" "''env-a-app''" "''AccessDenied''"
      "''not authorized''" "''An error occurred (AccessDenied)''"]
    delete_cloudformation_stack_client_error [of
      "calm_world\<lparr>api_error := \<lambda>h region c.
        if c = WaitStackDeleteComplete ''env-a-app''
        then Some (ClientError ''ValidationError'' ''Stack with id env-a-app does not exist''
                     ''An error occurred (ValidationError)'')
        else None\<rparr>"
      "[]" "''eu-west-1''" "''env-a-app''" "''ValidationError''"
      "''Stack with id env-a-app does not exist''" "''An error occurred (ValidationError)''"]
  by (simp add: calm_world_def sublist_code)

lemma update_lambda_vpc_config_Nil:
  "update_lambda_vpc_config w [] region h = ([], Inr ())"
  by (simp add: update_lambda_vpc_config_def)

lemma remove_ddb_deletion_protection_Nil:
  "remove_ddb_deletion_protection w [] region h = ([], Inr ())"
  by (simp add: remove_ddb_deletion_protection_def)

lemma update_lambda_vpc_config_Cons:
  "update_lambda_vpc_config w (function_name # rest) region h =
     (let es = [Call region (UpdateFunctionConfiguration function_name),
                (case api_error w h region (UpdateFunctionConfiguration function_name) of
                   None \<Rightarrow>
                     Echo (Styled (''Updated Lambda function '' @ apostrophe @ function_name
                                   @ apostrophe @ '' to remove VPC configuration.'')
                             (Some Yellow))
                 | Some e \<Rightarrow>
                     Echo (Styled (''Failed to update Lambda function '' @ apostrophe
                                   @ function_name @ apostrophe @ '': '' @ str_exn e) None))]
      in (es @ fst (update_lambda_vpc_config w rest region (h @ es)),
          snd (update_lambda_vpc_config w rest region (h @ es))))"
  by (simp add: update_lambda_vpc_config_def prog_defs split: option.splits prod.splits)

lemma update_lambda_vpc_config_returns:
  "snd (update_lambda_vpc_config w lambda_functions region h) = Inr ()"
proof (induction lambda_functions arbitrary: h)
  case Nil
  show ?case by (simp add: update_lambda_vpc_config_def)
next
  case (Cons function_name rest)
  show ?case by (simp only: update_lambda_vpc_config_Cons Let_def snd_conv Cons.IH)
qed

lemma update_lambda_vpc_config_calls:
  "calls_of (fst (update_lambda_vpc_config w lambda_functions region h)) =
     map UpdateFunctionConfiguration lambda_functions"
proof (induction lambda_functions arbitrary: h)
  case Nil
  show ?case by (simp add: update_lambda_vpc_config_def)
next
  case (Cons function_name rest)
  show ?case
    by (simp add: update_lambda_vpc_config_Cons Let_def calls_of_append Cons.IH
          split: option.splits)
qed

lemma remove_ddb_deletion_protection_Cons:
  "remove_ddb_deletion_protection w (table_name # rest) region h =
     (let es = [Call region (UpdateTable table_name),
                (case api_error w h region (UpdateTable table_name) of
                   None \<Rightarrow>
                     Echo (Styled (''Deletion protection disabled for DynamoDB table ''
                                   @ apostrophe @ table_name @ apostrophe @ ''.'')
                             (Some Yellow))
                 | Some e \<Rightarrow>
                     Echo (Styled (''Failed to disable deletion protection for DynamoDB table ''
                                   @ apostrophe @ table_name @ apostrophe @ '': '' @ str_exn e)
                             (Some Red)))]
      in (es @ fst (remove_ddb_deletion_protection w rest region (h @ es)),
          snd (remove_ddb_deletion_protection w rest region (h @ es))))"
  by (simp add: remove_ddb_deletion_protection_def prog_defs split: option.splits prod.splits)

lemma remove_ddb_deletion_protection_returns:
  "snd (remove_ddb_deletion_protection w table_names region h) = Inr ()"
proof (induction table_names arbitrary: h)
  case Nil
  show ?case by (simp add: remove_ddb_deletion_protection_def)
next
  case (Cons table_name rest)
  show ?case by (simp only: remove_ddb_deletion_protection_Cons Let_def snd_conv Cons.IH)
qed

lemma remove_ddb_deletion_protection_calls:
  "calls_of (fst (remove_ddb_deletion_protection w table_names region h)) =
     map UpdateTable table_names"
proof (induction table_names arbitrary: h)
  case Nil
  show ?case by (simp add: remove_ddb_deletion_protection_def)
next
  case (Cons table_name rest)
  show ?case
    by (simp add: remove_ddb_deletion_protection_Cons Let_def calls_of_append Cons.IH
          split: option.splits)
qed

lemma delete_s3_bucket_fails:
  "(api_error w h region (ObjectVersionsDelete n) = Some e \<longrightarrow>
      delete_s3_bucket w n region h =
        ([Call region (ObjectVersionsDelete n)],
         Inl (ClickException (Styled (''Failed to delete S3 bucket '' @ n @ '': '' @ str_exn e)
                (Some Red))))) \<and>
   (api_error w h region (ObjectVersionsDelete n) = None \<and>
    api_error w (h @ [Call region (ObjectVersionsDelete n)]) region (BucketDelete n) = Some e \<longrightarrow>
      delete_s3_bucket w n region h =
        ([Call region (ObjectVersionsDelete n), Call region (BucketDelete n)],
         Inl (ClickException (Styled (''Failed to delete S3 bucket '' @ n @ '': '' @ str_exn e)
                (Some Red)))))"
  by (simp add: delete_s3_bucket_def prog_defs)

lemma delete_ecr_repository_fails:
  "api_error w h region (DeleteRepository n) = Some e \<longrightarrow>
      delete_ecr_repository w n region h =
        ([Call region (DeleteRepository n)],
         Inl (ClickException (Styled (''Failed to delete ECR repository '' @ n @ '': ''
                                      @ str_exn e) (Some Red))))"
  by (simp add: delete_ecr_repository_def prog_defs)

lemma delete_ssm_param_fails:
  "api_error w h region (DeleteParameter n) = Some e \<longrightarrow>
      delete_ssm_param w n region h =
        ([Call region (DeleteParameter n)],
         Inl (ClickException (Styled (''Failed to delete SSM Parameter '' @ n @ '': ''
                                      @ str_exn e) (Some Red))))"
  by (simp add: delete_ssm_param_def prog_defs)

lemma delete_log_group_fails:
  "api_error w h region (DeleteLogGroup n) = Some e \<longrightarrow>
      delete_log_group w n region h =
        ([Call region (DeleteLogGroup n)],
         Inl (ClickException (Styled (''Failed to delete Log Group '' @ n @ '': ''
                                      @ str_exn e) (Some Red))))"
  by (simp add: delete_log_group_def prog_defs)

text \<open>
  C5. When the provider call inside \<open>delete_s3_bucket\<close> (either of its two calls),
  \<open>delete_ecr_repository\<close>, \<open>delete_ssm_param\<close> or \<open>delete_log_group\<close> raises \<open>e\<close>, the
  deleter raises the \<open>ClickException\<close> of \<open>raise_for_click\<close> with the formatted message.
  \<open>update_lambda_vpc_config\<close> and \<open>remove_ddb_deletion_protection\<close> always return: they
  make their call for every name of the list, and when the call for a name raises they
  print a line and go on with the rest of the list.
\<close>

theorem deleter_failures_raise_or_print:
  "(api_error w h region (ObjectVersionsDelete n) = Some e \<longrightarrow>
      delete_s3_bucket w n region h =
        ([Call region (ObjectVersionsDelete n)],
         Inl (ClickException (Styled (''Failed to delete S3 bucket '' @ n @ '': '' @ str_exn e)
                (Some Red))))) \<and>
   (api_error w h region (ObjectVersionsDelete n) = None \<and>
    api_error w (h @ [Call region (ObjectVersionsDelete n)]) region (BucketDelete n) = Some e \<longrightarrow>
      delete_s3_bucket w n region h =
        ([Call region (ObjectVersionsDelete n), Call region (BucketDelete n)],
         Inl (ClickException (Styled (''Failed to delete S3 bucket '' @ n @ '': '' @ str_exn e)
                (Some Red))))) \<and>
   (api_error w h region (DeleteRepository n) = Some e \<longrightarrow>
      delete_ecr_repository w n region h =
        ([Call region (DeleteRepository n)],
         Inl (ClickException (Styled (''Failed to delete ECR repository '' @ n @ '': ''
                                      @ str_exn e) (Some Red))))) \<and>
   (api_error w h region (DeleteParameter n) = Some e \<longrightarrow>
      delete_ssm_param w n region h =
        ([Call region (DeleteParameter n)],
         Inl (ClickException (Styled (''Failed to delete SSM Parameter '' @ n @ '': ''
                                      @ str_exn e) (Some Red))))) \<and>
   (api_error w h region (DeleteLogGroup n) = Some e \<longrightarrow>
      delete_log_group w n region h =
        ([Call region (DeleteLogGroup n)],
         Inl (ClickException (Styled (''Failed to delete Log Group '' @ n @ '': ''
                                      @ str_exn e) (Some Red))))) \<and>
   snd (update_lambda_vpc_config w names region h) = Inr () \<and>
   calls_of (fst (update_lambda_vpc_config w names region h)) =
     map UpdateFunctionConfiguration names \<and>
   (api_error w h region (UpdateFunctionConfiguration n) = Some e \<longrightarrow>
      update_lambda_vpc_config w (n # names) region h =
        (let es = [Call region (UpdateFunctionConfiguration n),
                   Echo (Styled (''Failed to update Lambda function '' @ apostrophe @ n
                                 @ apostrophe @ '': '' @ str_exn e) None)]
         in (es @ fst (update_lambda_vpc_config w names region (h @ es)),
             snd (update_lambda_vpc_config w names region (h @ es))))) \<and>
   snd (remove_ddb_deletion_protection w names region h) = Inr () \<and>
   calls_of (fst (remove_ddb_deletion_protection w names region h)) = map UpdateTable names \<and>
   (api_error w h region (UpdateTable n) = Some e \<longrightarrow>
      remove_ddb_deletion_protection w (n # names) region h =
        (let es = [Call region (UpdateTable n),
                   Echo (Styled (''Failed to disable deletion protection for DynamoDB table ''
                                 @ apostrophe @ n @ apostrophe @ '': '' @ str_exn e)
                           (Some Red))]
         in (es @ fst (remove_ddb_deletion_protection w names region (h @ es)),
             snd (remove_ddb_deletion_protection w names region (h @ es)))))"
proof -
  have lam: "api_error w h region (UpdateFunctionConfiguration n) = Some e \<longrightarrow>
      update_lambda_vpc_config w (n # names) region h =
        (let es = [Call region (UpdateFunctionConfiguration n),
                   Echo (Styled (''Failed to update Lambda function '' @ apostrophe @ n
                                 @ apostrophe @ '': '' @ str_exn e) None)]
         in (es @ fst (update_lambda_vpc_config w names region (h @ es)),
             snd (update_lambda_vpc_config w names region (h @ es))))"
    by (simp add: update_lambda_vpc_config_Cons)
  have ddb: "api_error w h region (UpdateTable n) = Some e \<longrightarrow>
      remove_ddb_deletion_protection w (n # names) region h =
        (let es = [Call region (UpdateTable n),
                   Echo (Styled (''Failed to disable deletion protection for DynamoDB table ''
                                 @ apostrophe @ n @ apostrophe @ '': '' @ str_exn e)
                           (Some Red))]
         in (es @ fst (remove_ddb_deletion_protection w names region (h @ es)),
             snd (remove_ddb_deletion_protection w names region (h @ es))))"
    by (simp add: remove_ddb_deletion_protection_Cons)
  from delete_s3_bucket_fails [of w h region n e] delete_ecr_repository_fails [of w h region n e]
    delete_ssm_param_fails [of w h region n e] delete_log_group_fails [of w h region n e]
    update_lambda_vpc_config_returns [of w names region h]
    update_lambda_vpc_config_calls [of w names region h] lam
    remove_ddb_deletion_protection_returns [of w names region h]
    remove_ddb_deletion_protection_calls [of w names region h] ddb
  show ?thesis by blast
qed

theorem deleter_failures_raise_or_print_witness:
  "delete_s3_bucket (calm_world\<lparr>api_error := \<lambda>h region c. Some (OtherException ''boom'')\<rparr>)
     ''env-a-x'' ''eu-west-1'' []
   = ([Call ''eu-west-1'' (ObjectVersionsDelete ''env-a-x'')],
      Inl (ClickException (Styled ''Failed to delete S3 bucket env-a-x: boom'' (Some Red)))) \<and>
   delete_s3_bucket
     (calm_world\<lparr>api_error := \<lambda>h region c.
        if c = BucketDelete ''env-a-x'' then Some (OtherException ''boom'') else None\<rparr>)
     ''env-a-x'' ''eu-west-1'' []
   = ([Call ''eu-west-1'' (ObjectVersionsDelete ''env-a-x''),
       Call ''eu-west-1'' (BucketDelete ''env-a-x'')],
      Inl (ClickException (Styled ''Failed to delete S3 bucket env-a-x: boom'' (Some Red)))) \<and>
   delete_ecr_repository
     (calm_world\<lparr>api_error := \<lambda>h region c. Some (OtherException ''boom'')\<rparr>)
     ''env-a-x'' ''eu-west-1'' []
   = ([Call ''eu-west-1'' (DeleteRepository ''env-a-x'')],
      Inl (ClickException (Styled ''Failed to delete ECR repository env-a-x: boom''
             (Some Red)))) \<and>
   delete_ssm_param (calm_world\<lparr>api_error := \<lambda>h region c. Some (OtherException ''boom'')\<rparr>)
     ''env-a-x'' ''eu-west-1'' []
   = ([Call ''eu-west-1'' (DeleteParameter ''env-a-x'')],
      Inl (ClickException (Styled ''Failed to delete SSM Parameter env-a-x: boom''
             (Some Red)))) \<and>
   delete_log_group (calm_world\<lparr>api_error := \<lambda>h region c. Some (OtherException ''boom'')\<rparr>)
     ''env-a-x'' ''eu-west-1'' []
   = ([Call ''eu-west-1'' (DeleteLogGroup ''env-a-x'')],
      Inl (ClickException (Styled ''Failed to delete Log Group env-a-x: boom'' (Some Red)))) \<and>
   update_lambda_vpc_config
     (calm_world\<lparr>api_error := \<lambda>h region c. Some (OtherException ''boom'')\<rparr>)
     [''env-a-x'', ''env-a-y''] ''eu-west-1'' []
   = ([Call ''eu-west-1'' (UpdateFunctionConfiguration ''env-a-x''),
       Echo (Styled (''Failed to update Lambda function '' @ apostrophe @ ''env-a-x''
                     @ apostrophe @ '': boom'') None),
       Call ''eu-west-1'' (UpdateFunctionConfiguration ''env-a-y''),
       Echo (Styled (''Failed to update Lambda function '' @ apostrophe @ ''env-a-y''
                     @ apostrophe @ '': boom'') None)],
      Inr ()) \<and>
   remove_ddb_deletion_protection
     (calm_world\<lparr>api_error := \<lambda>h region c. Some (OtherException ''boom'')\<rparr>)
     [''env-a-x'', ''env-a-y''] ''eu-west-1'' []
   = ([Call ''eu-west-1'' (UpdateTable ''env-a-x''),
       Echo (Styled (''Failed to disable deletion protection for DynamoDB table ''
                     @ apostrophe @ ''env-a-x'' @ apostrophe @ '': boom'') (Some Red)),
       Call ''eu-west-1'' (UpdateTable ''env-a-y''),
       Echo (Styled (''Failed to disable deletion protection for DynamoDB table ''
                     @ apostrophe @ ''env-a-y'' @ apostrophe @ '': boom'') (Some Red))],
      Inr ())"
  using
    deleter_failures_raise_or_print [of
      "calm_world\<lparr>api_error := \<lambda>h region c. Some (OtherException ''boom'')\<rparr>"
      "[]" "''eu-west-1''" "''env-a-x''" "OtherException ''boom''" "[''env-a-y'']"]
    deleter_failures_raise_or_print [of
      "calm_world\<lparr>api_error := \<lambda>h region c.
        if c = BucketDelete ''env-a-x'' then Some (OtherException ''boom'') else None\<rparr>"
      "[]" "''eu-west-1''" "''env-a-x''" "OtherException ''boom''" "[''env-a-y'']"]
  by (simp add: calm_world_def update_lambda_vpc_config_Cons
        remove_ddb_deletion_protection_Cons update_lambda_vpc_config_Nil
        remove_ddb_deletion_protection_Nil)

text \<open>
  C7. The first thing \<open>delete_s3_bucket\<close> does is to delete the object versions of the
  bucket; it calls the bucket's \<open>delete\<close> only after that call has returned, and not at
  all when it has raised.
\<close>

theorem delete_s3_bucket_empties_first:
  "calls_of (fst (delete_s3_bucket w bucket_name region h)) =
     (if api_error w h region (ObjectVersionsDelete bucket_name) = None
      then [ObjectVersionsDelete bucket_name, BucketDelete bucket_name]
      else [ObjectVersionsDelete bucket_name]) \<and>
   (\<exists>rest. fst (delete_s3_bucket w bucket_name region h) =
              Call region (ObjectVersionsDelete bucket_name) # rest)"
  by (simp add: delete_s3_bucket_def prog_defs split: option.splits)

theorem delete_s3_bucket_empties_first_witness:
  "calls_of (fst (delete_s3_bucket calm_world ''env-a-x'' ''eu-west-1'' [])) =
     [ObjectVersionsDelete ''env-a-x'', BucketDelete ''env-a-x''] \<and>
   calls_of (fst (delete_s3_bucket
      (calm_world\<lparr>api_error := \<lambda>h region c. Some (OtherException ''boom'')\<rparr>)
      ''env-a-x'' ''eu-west-1'' [])) = [ObjectVersionsDelete ''env-a-x'']"
  using delete_s3_bucket_empties_first [of calm_world "''env-a-x''" "''eu-west-1''" "[]"]
    delete_s3_bucket_empties_first [of
      "calm_world\<lparr>api_error := \<lambda>h region c. Some (OtherException ''boom'')\<rparr>"
      "''env-a-x''" "''eu-west-1''" "[]"]
  by (simp add: calm_world_def)

section \<open>Properties of the orchestrator\<close>

lemma emits_and_then_result:
  assumes "emits P m" and "\<And>h x. snd (m h) = Inr x \<Longrightarrow> emits P (k x)"
  shows "emits P (and_then m k)"
  using assms by (simp add: emits_def and_then_proj split: sum.splits)

lemma emits_delete_cloudformation_stack:
  assumes "\<And>s. P (Echo s)" and "P (Call region (DeleteStack n))"
    and "P (Call region (WaitStackDeleteComplete n))"
  shows "emits P (delete_cloudformation_stack w n region)"
  unfolding delete_cloudformation_stack_def
  by (intro emits_intros; simp add: assms emits_intros split: exn.splits)

lemma emits_delete_s3_bucket:
  assumes "\<And>s. P (Echo s)" and "P (Call region (ObjectVersionsDelete n))"
    and "P (Call region (BucketDelete n))"
  shows "emits P (delete_s3_bucket w n region)"
  unfolding delete_s3_bucket_def
  by (intro emits_intros; simp add: assms)

lemma emits_delete_ecr_repository:
  assumes "\<And>s. P (Echo s)" and "P (Call region (DeleteRepository n))"
  shows "emits P (delete_ecr_repository w n region)"
  unfolding delete_ecr_repository_def
  by (intro emits_intros; simp add: assms)

lemma emits_delete_ssm_param:
  assumes "\<And>s. P (Echo s)" and "P (Call region (DeleteParameter n))"
  shows "emits P (delete_ssm_param w n region)"
  unfolding delete_ssm_param_def
  by (intro emits_intros; simp add: assms)

lemma emits_delete_log_group:
  assumes "\<And>s. P (Echo s)" and "P (Call region (DeleteLogGroup n))"
  shows "emits P (delete_log_group w n region)"
  unfolding delete_log_group_def
  by (intro emits_intros; simp add: assms)

lemma gather_unmanaged_resources_keys:
  assumes "snd (gather_unmanaged_resources w substrings region h) = Inr u"
  shows "\<exists>s3 ssm logs. u = [(''s3_buckets'', s3), (''ssm_params'', ssm), (''log_groups'', logs)]"
  using assms
  by (auto simp: gather_unmanaged_resources_def and_then_proj ret_def split: sum.splits)

lemma emits_for_prog_set:
  assumes "\<And>x. x \<in> set xs \<Longrightarrow> emits P (body x)"
  shows "emits P (for_prog body xs)"
  using assms
proof (induction xs)
  case Nil
  show ?case by (simp add: emits_def)
next
  case (Cons x xs)
  show ?case
    unfolding for_prog_Cons_and_then
    by (rule emits_and_then) (simp_all add: Cons)
qed

lemma emits_unmanaged_loop:
  "emits (\<lambda>e. \<not> cloudformation_or_ecr_deletion e)
     (unmanaged_loop w no_confirm
        [(''s3_buckets'', s3), (''ssm_params'', ssm), (''log_groups'', logs)] region)"
  unfolding unmanaged_loop_def
proof (rule emits_for_prog_set)
  fix x :: "string \<times> (world \<Rightarrow> string \<Rightarrow> string \<Rightarrow> unit prog)"
  let ?P = "\<lambda>e. \<not> cloudformation_or_ecr_deletion e"
  let ?u = "[(''s3_buckets'', s3), (''ssm_params'', ssm), (''log_groups'', logs)]"
  let ?body = "\<lambda>(resource_type, delete_function).
        let resources = (case map_of ?u resource_type of None \<Rightarrow> [] | Some rs \<Rightarrow> rs) in
        if resources \<noteq> [] then
          and_then (secho (''The following '' @ resource_type @ '' will be deleted:'')
                      (Some Yellow)) (\<lambda>u.
          and_then (secho (join newline resources) (Some Red)) (\<lambda>u.
          and_then (no_confirm_or w no_confirm
                      (''Do you want to proceed with deleting these '' @ resource_type @ ''?''))
            (\<lambda>ok.
          if ok then
            for_prog (\<lambda>resource_name. delete_function w resource_name region) resources
          else ret ())))
        else ret ()"
  assume "x \<in> set delete_methods"
  then have "x = (''cloudformation_stacks'', delete_cloudformation_stack) \<or>
      x = (''s3_buckets'', delete_s3_bucket) \<or>
      x = (''ecr_repositories'', delete_ecr_repository) \<or>
      x = (''ssm_params'', delete_ssm_param) \<or>
      x = (''log_groups'', delete_log_group)"
    by (simp only: delete_methods_def list.set insert_iff empty_iff simp_thms)
  then show "emits ?P (?body x)"
  proof (elim disjE)
    assume 1: "x = (''cloudformation_stacks'', delete_cloudformation_stack)"
    then show ?thesis by (simp add: emits_ret)
  next
    assume 2: "x = (''s3_buckets'', delete_s3_bucket)"
    have "emits ?P (?body (''s3_buckets'', delete_s3_bucket))"
      by (simp add: Let_def split del: if_split)
         (intro emits_intros emits_for_prog_set emits_delete_s3_bucket; simp)
    with 2 show ?thesis by simp
  next
    assume 3: "x = (''ecr_repositories'', delete_ecr_repository)"
    then show ?thesis by (simp add: emits_ret)
  next
    assume 4: "x = (''ssm_params'', delete_ssm_param)"
    have "emits ?P (?body (''ssm_params'', delete_ssm_param))"
      by (simp add: Let_def split del: if_split)
         (intro emits_intros emits_for_prog_set emits_delete_ssm_param; simp)
    with 4 show ?thesis by simp
  next
    assume 5: "x = (''log_groups'', delete_log_group)"
    have "emits ?P (?body (''log_groups'', delete_log_group))"
      by (simp add: Let_def split del: if_split)
         (intro emits_intros emits_for_prog_set emits_delete_log_group; simp)
    with 5 show ?thesis by simp
  qed
qed

text \<open>
  C9. The unmanaged inventory has exactly the keys \<open>s3_buckets\<close>, \<open>ssm_params\<close> and
  \<open>log_groups\<close>. So the second pass, though its loop runs over all of \<open>delete_methods\<close>,
  never calls the CloudFormation deleter (\<open>delete_stack\<close>, the waiter) nor the ECR deleter
  (\<open>delete_repository\<close>) and never asks the prompt of the loop for these two types.
\<close>

theorem unmanaged_pass_skips_cloudformation_and_ecr:
  "(snd (gather_unmanaged_resources w substrings region h) = Inr u \<longrightarrow>
      map fst u = [''s3_buckets'', ''ssm_params'', ''log_groups'']) \<and>
   emits (\<lambda>e. \<not> cloudformation_or_ecr_deletion e)
     (unmanaged_pass w no_confirm substrings region)"
proof
  show "snd (gather_unmanaged_resources w substrings region h) = Inr u \<longrightarrow>
      map fst u = [''s3_buckets'', ''ssm_params'', ''log_groups'']"
  proof
    assume "snd (gather_unmanaged_resources w substrings region h) = Inr u"
    then obtain s3 ssm logs
      where "u = [(''s3_buckets'', s3), (''ssm_params'', ssm), (''log_groups'', logs)]"
      using gather_unmanaged_resources_keys by metis
    then show "map fst u = [''s3_buckets'', ''ssm_params'', ''log_groups'']"
      by (simp only: list.map fst_conv)
  qed
next
  show "emits (\<lambda>e. \<not> cloudformation_or_ecr_deletion e)
     (unmanaged_pass w no_confirm substrings region)"
    unfolding unmanaged_pass_def
  proof (rule emits_and_then_result)
    show "emits (\<lambda>e. \<not> cloudformation_or_ecr_deletion e)
            (gather_unmanaged_resources w substrings region)"
      unfolding gather_unmanaged_resources_def
      by (intro emits_intros; simp)
  next
    fix h' u'
    assume "snd (gather_unmanaged_resources w substrings region h') = Inr u'"
    then obtain s3 ssm logs
      where "u' = [(''s3_buckets'', s3), (''ssm_params'', ssm), (''log_groups'', logs)]"
      using gather_unmanaged_resources_keys by metis
    then show "emits (\<lambda>e. \<not> cloudformation_or_ecr_deletion e)
                 (unmanaged_loop w no_confirm u' region)"
      by (simp only: emits_unmanaged_loop)
  qed
qed

theorem unmanaged_pass_skips_cloudformation_and_ecr_witness:
  "snd (gather_unmanaged_resources busy_world (Some [''env-a'']) ''eu-west-1'' []) =
     Inr [(''s3_buckets'', [''env-a-assets'']), (''ssm_params'', [''/env-a/db/url'']),
          (''log_groups'', [''/aws/lambda/env-a-fn''])] \<and>
   list_all (\<lambda>e. \<not> cloudformation_or_ecr_deletion e)
     (fst (unmanaged_pass busy_world True (Some [''env-a'']) ''eu-west-1'' [])) \<and>
   calls_of (fst (unmanaged_pass busy_world True (Some [''env-a'']) ''eu-west-1'' [])) =
     [ListBuckets, DescribeParameters, DescribeLogGroups,
      ObjectVersionsDelete ''env-a-assets'', BucketDelete ''env-a-assets'',
      DeleteParameter ''/env-a/db/url'', DeleteLogGroup ''/aws/lambda/env-a-fn'']"
proof -
  have 1: "snd (gather_unmanaged_resources busy_world (Some [''env-a'']) ''eu-west-1'' []) =
     Inr [(''s3_buckets'', [''env-a-assets'']), (''ssm_params'', [''/env-a/db/url'']),
          (''log_groups'', [''/aws/lambda/env-a-fn''])]"
    by code_simp
  have 2: "calls_of (fst (unmanaged_pass busy_world True (Some [''env-a'']) ''eu-west-1'' [])) =
     [ListBuckets, DescribeParameters, DescribeLogGroups,
      ObjectVersionsDelete ''env-a-assets'', BucketDelete ''env-a-assets'',
      DeleteParameter ''/env-a/db/url'', DeleteLogGroup ''/aws/lambda/env-a-fn'']"
    by code_simp
  from unmanaged_pass_skips_cloudformation_and_ecr
         [of busy_world "Some [''env-a'']" "''eu-west-1''" "[]"
             "[(''s3_buckets'', [''env-a-assets'']), (''ssm_params'', [''/env-a/db/url'']),
               (''log_groups'', [''/aws/lambda/env-a-fn''])]" True]
  have "list_all (\<lambda>e. \<not> cloudformation_or_ecr_deletion e)
     (fst (unmanaged_pass busy_world True (Some [''env-a'']) ''eu-west-1'' []))"
    by (simp only: emits_def)
  with 1 2 show ?thesis by (intro conjI)
qed

section \<open>A run without prefixes\<close>

lemma for_each_unchanged:
  assumes "\<And>x acc acc'. body x acc = Inr acc' \<Longrightarrow> acc' = acc"
  shows "for_each body xs acc = Inr acc' \<Longrightarrow> acc' = acc"
proof (induction xs arbitrary: acc)
  case Nil
  then show ?case by simp
next
  case (Cons x xs)
  then show ?case
    by (auto split: sum.splits dest: assms)
qed

lemma for_each_pages_unchanged:
  assumes "\<And>x acc acc'. body x acc = Inr acc' \<Longrightarrow> acc' = acc"
  shows "for_each (\<lambda>page. for_each body page) pages acc = Inr acc' \<Longrightarrow> acc' = acc"
  by (rule for_each_unchanged [where body = "\<lambda>page. for_each body page"])
     (rule for_each_unchanged [OF assms])

lemma any_in_no_prefixes:
  assumes "substrings = Some [] \<or> substrings = None"
  shows "any_in substrings s = Inr found \<Longrightarrow> \<not> found"
  using assms by auto

lemma gather_cloudformation_stacks_no_prefixes:
  assumes "substrings = Some [] \<or> substrings = None"
    and "gather_cloudformation_stacks substrings pages = Inr xs"
  shows "xs = []"
proof -
  let ?body = "\<lambda>stack stack_infos.
              if \<not> sublist ''DELETE_COMPLETE'' (StackStatus stack) \<and> ParentId stack = None
              then (case any_in substrings (StackName stack) of
                      Inl e \<Rightarrow> Inl e
                    | Inr found \<Rightarrow>
                        Inr (if found
                             then stack_infos @ [(StackName stack, CreationTime stack)]
                             else stack_infos))
              else Inr stack_infos"
  have body: "?body x acc = Inr acc' \<Longrightarrow> acc' = acc" for x acc acc'
    using any_in_no_prefixes [OF assms(1)]
    by (auto split: if_splits sum.splits)
  from assms(2) obtain infos
    where loop: "for_each (\<lambda>page. for_each ?body page) pages [] = Inr infos"
      and xs: "xs = map fst (sorted_reverse snd infos)"
    by (auto simp: gather_cloudformation_stacks_def split: sum.splits)
  from for_each_pages_unchanged [of ?body, OF body loop] have "infos = []" .
  with xs show ?thesis by (simp add: sorted_reverse_def)
qed

lemma gather_s3_buckets_no_prefixes:
  assumes "substrings = Some [] \<or> substrings = None"
    and "gather_s3_buckets substrings all_buckets = Inr xs"
  shows "xs = []"
proof -
  let ?body = "\<lambda>bucket buckets.
        case any_in substrings (name bucket) of
          Inl e \<Rightarrow> Inl e
        | Inr found \<Rightarrow> Inr (if found then buckets @ [name bucket] else buckets)"
  have body: "?body x acc = Inr acc' \<Longrightarrow> acc' = acc" for x acc acc'
    using any_in_no_prefixes [OF assms(1)]
    by (auto split: if_splits sum.splits)
  from for_each_unchanged [of ?body, OF body] assms(2) show ?thesis
    by (simp add: gather_s3_buckets_def)
qed

lemma gather_ddb_tables_no_prefixes:
  assumes "substrings = Some [] \<or> substrings = None"
    and "gather_ddb_tables substrings pages = Inr xs"
  shows "xs = []"
proof -
  let ?body = "\<lambda>table_name tables.
        case any_in substrings table_name of
          Inl e \<Rightarrow> Inl e
        | Inr found \<Rightarrow> Inr (if found then tables @ [table_name] else tables)"
  have body: "?body x acc = Inr acc' \<Longrightarrow> acc' = acc" for x acc acc'
    using any_in_no_prefixes [OF assms(1)]
    by (auto split: if_splits sum.splits)
  from for_each_pages_unchanged [of ?body, OF body] assms(2) show ?thesis
    by (simp add: gather_ddb_tables_def)
qed

lemma gather_ecr_repositories_no_prefixes:
  assumes "substrings = Some [] \<or> substrings = None"
    and "gather_ecr_repositories substrings pages = Inr xs"
  shows "xs = []"
proof -
  let ?body = "\<lambda>repo repositories.
        case any_in substrings (repositoryName repo) of
          Inl e \<Rightarrow> Inl e
        | Inr found \<Rightarrow>
            Inr (if found then repositories @ [repositoryName repo] else repositories)"
  have body: "?body x acc = Inr acc' \<Longrightarrow> acc' = acc" for x acc acc'
    using any_in_no_prefixes [OF assms(1)]
    by (auto split: if_splits sum.splits)
  from for_each_pages_unchanged [of ?body, OF body] assms(2) show ?thesis
    by (simp add: gather_ecr_repositories_def)
qed

lemma gather_log_groups_no_prefixes:
  assumes "substrings = Some [] \<or> substrings = None"
    and "gather_log_groups substrings pages = Inr xs"
  shows "xs = []"
proof -
  let ?body = "\<lambda>lg log_groups.
        case any_in substrings (logGroupName lg) of
          Inl e \<Rightarrow> Inl e
        | Inr found \<Rightarrow> Inr (if found then log_groups @ [logGroupName lg] else log_groups)"
  have body: "?body x acc = Inr acc' \<Longrightarrow> acc' = acc" for x acc acc'
    using any_in_no_prefixes [OF assms(1)]
    by (auto split: if_splits sum.splits)
  from for_each_pages_unchanged [of ?body, OF body] assms(2) show ?thesis
    by (simp add: gather_log_groups_def)
qed

lemma gather_ssm_params_no_prefixes:
  assumes "substrings = Some [] \<or> substrings = None"
    and "gather_ssm_params substrings pages = Inr xs"
  shows "xs = []"
proof -
  let ?body = "\<lambda>param ssm_params.
        case substrings of
          None \<Rightarrow> Inl not_iterable
        | Some subs \<Rightarrow> Inr (ssm_first_match subs (Name param) ssm_params)"
  have body: "?body x acc = Inr acc' \<Longrightarrow> acc' = acc" for x acc acc'
    using assms(1) by auto
  from for_each_pages_unchanged [of ?body, OF body] assms(2) show ?thesis
    by (simp add: gather_ssm_params_def)
qed

lemma gather_vpc_lambdas_no_prefixes:
  assumes "substrings = Some [] \<or> substrings = None"
    and "gather_vpc_lambdas substrings pages = Inr xs"
  shows "xs = []"
proof -
  let ?body = "\<lambda>function lambda_functions.
        case any_in substrings (FunctionName function) of
          Inl e \<Rightarrow> Inl e
        | Inr found \<Rightarrow>
            Inr (if found \<and>
                    (case VpcConfig function of
                       None \<Rightarrow> False
                     | Some vc \<Rightarrow> (case VpcId vc of None \<Rightarrow> False | Some v \<Rightarrow> v \<noteq> []))
                 then lambda_functions @ [FunctionName function]
                 else lambda_functions)"
  have body: "?body x acc = Inr acc' \<Longrightarrow> acc' = acc" for x acc acc'
    using any_in_no_prefixes [OF assms(1)]
    by (auto split: if_splits sum.splits)
  from for_each_pages_unchanged [of ?body, OF body] assms(2) show ?thesis
    by (simp add: gather_vpc_lambdas_def)
qed

lemma and_then_Inr:
  assumes "snd (and_then m k h) = Inr y"
  obtains x where "snd (m h) = Inr x" and "snd (k x (h @ fst (m h))) = Inr y"
  using assms by (auto simp: and_then_proj split: sum.splits)

lemma listing_Inr:
  assumes "snd (listing w region c g h) = Inr x"
  shows "g h = Inr x"
  using assms by (auto simp: listing_def split: option.splits sum.splits)

lemma and_then_listing_Inr:
  assumes "snd (and_then (listing w region c g) k h) = Inr y"
  shows "\<exists>x h'. g h = Inr x \<and> snd (k x h') = Inr y"
  using assms by (auto elim!: and_then_Inr dest: listing_Inr)

lemma gather_resources_no_prefixes:
  assumes sub: "substrings = Some [] \<or> substrings = None"
    and res: "snd (gather_resources w substrings region h) = Inr resources"
  shows "resources = \<lparr>cloudformation_stacks = [], s3_buckets = [], ecr_repositories = [],
                       vpc_lambdas = [], ddb_tables = []\<rparr>"
proof -
  from res [unfolded gather_resources_def]
  have "\<exists>cfn h1. gather_cloudformation_stacks substrings (list_stacks w h region) = Inr cfn \<and>
     snd (and_then (listing w region ListBuckets
                 (\<lambda>h. gather_s3_buckets substrings (buckets_all w h region))) (\<lambda>s3.
     and_then (listing w region DescribeRepositories
                 (\<lambda>h. gather_ecr_repositories substrings (describe_repositories w h region))) (\<lambda>ecr.
     and_then (listing w region ListFunctions
                 (\<lambda>h. gather_vpc_lambdas substrings (list_functions w h region))) (\<lambda>lambdas.
     and_then (listing w region ListTables
                 (\<lambda>h. gather_ddb_tables substrings (list_tables w h region))) (\<lambda>ddb.
     ret \<lparr>cloudformation_stacks = cfn, s3_buckets = s3, ecr_repositories = ecr,
          vpc_lambdas = lambdas, ddb_tables = ddb\<rparr>)))) h1) = Inr resources"
    by (rule and_then_listing_Inr)
  then obtain cfn h1
    where cfn: "gather_cloudformation_stacks substrings (list_stacks w h region) = Inr cfn"
    and r1: "snd (and_then (listing w region ListBuckets
                 (\<lambda>h. gather_s3_buckets substrings (buckets_all w h region))) (\<lambda>s3.
     and_then (listing w region DescribeRepositories
                 (\<lambda>h. gather_ecr_repositories substrings (describe_repositories w h region))) (\<lambda>ecr.
     and_then (listing w region ListFunctions
                 (\<lambda>h. gather_vpc_lambdas substrings (list_functions w h region))) (\<lambda>lambdas.
     and_then (listing w region ListTables
                 (\<lambda>h. gather_ddb_tables substrings (list_tables w h region))) (\<lambda>ddb.
     ret \<lparr>cloudformation_stacks = cfn, s3_buckets = s3, ecr_repositories = ecr,
          vpc_lambdas = lambdas, ddb_tables = ddb\<rparr>)))) h1) = Inr resources"
    by (elim exE conjE)
  from r1
  have "\<exists>s3 h2. gather_s3_buckets substrings (buckets_all w h1 region) = Inr s3 \<and>
     snd (and_then (listing w region DescribeRepositories
                 (\<lambda>h. gather_ecr_repositories substrings (describe_repositories w h region))) (\<lambda>ecr.
     and_then (listing w region ListFunctions
                 (\<lambda>h. gather_vpc_lambdas substrings (list_functions w h region))) (\<lambda>lambdas.
     and_then (listing w region ListTables
                 (\<lambda>h. gather_ddb_tables substrings (list_tables w h region))) (\<lambda>ddb.
     ret \<lparr>cloudformation_stacks = cfn, s3_buckets = s3, ecr_repositories = ecr,
          vpc_lambdas = lambdas, ddb_tables = ddb\<rparr>))) h2) = Inr resources"
    by (rule and_then_listing_Inr)
  then obtain s3 h2
    where s3: "gather_s3_buckets substrings (buckets_all w h1 region) = Inr s3"
    and r2: "snd (and_then (listing w region DescribeRepositories
                 (\<lambda>h. gather_ecr_repositories substrings (describe_repositories w h region))) (\<lambda>ecr.
     and_then (listing w region ListFunctions
                 (\<lambda>h. gather_vpc_lambdas substrings (list_functions w h region))) (\<lambda>lambdas.
     and_then (listing w region ListTables
                 (\<lambda>h. gather_ddb_tables substrings (list_tables w h region))) (\<lambda>ddb.
     ret \<lparr>cloudformation_stacks = cfn, s3_buckets = s3, ecr_repositories = ecr,
          vpc_lambdas = lambdas, ddb_tables = ddb\<rparr>))) h2) = Inr resources"
    by (elim exE conjE)
  from r2
  have "\<exists>ecr h3. gather_ecr_repositories substrings (describe_repositories w h2 region) = Inr ecr \<and>
     snd (and_then (listing w region ListFunctions
                 (\<lambda>h. gather_vpc_lambdas substrings (list_functions w h region))) (\<lambda>lambdas.
     and_then (listing w region ListTables
                 (\<lambda>h. gather_ddb_tables substrings (list_tables w h region))) (\<lambda>ddb.
     ret \<lparr>cloudformation_stacks = cfn, s3_buckets = s3, ecr_repositories = ecr,
          vpc_lambdas = lambdas, ddb_tables = ddb\<rparr>)) h3) = Inr resources"
    by (rule and_then_listing_Inr)
  then obtain ecr h3
    where ecr: "gather_ecr_repositories substrings (describe_repositories w h2 region) = Inr ecr"
    and r3: "snd (and_then (listing w region ListFunctions
                 (\<lambda>h. gather_vpc_lambdas substrings (list_functions w h region))) (\<lambda>lambdas.
     and_then (listing w region ListTables
                 (\<lambda>h. gather_ddb_tables substrings (list_tables w h region))) (\<lambda>ddb.
     ret \<lparr>cloudformation_stacks = cfn, s3_buckets = s3, ecr_repositories = ecr,
          vpc_lambdas = lambdas, ddb_tables = ddb\<rparr>)) h3) = Inr resources"
    by (elim exE conjE)
  from r3
  have "\<exists>lambdas h4. gather_vpc_lambdas substrings (list_functions w h3 region) = Inr lambdas \<and>
     snd (and_then (listing w region ListTables
                 (\<lambda>h. gather_ddb_tables substrings (list_tables w h region))) (\<lambda>ddb.
     ret \<lparr>cloudformation_stacks = cfn, s3_buckets = s3, ecr_repositories = ecr,
          vpc_lambdas = lambdas, ddb_tables = ddb\<rparr>) h4) = Inr resources"
    by (rule and_then_listing_Inr)
  then obtain lambdas h4
    where lambdas: "gather_vpc_lambdas substrings (list_functions w h3 region) = Inr lambdas"
    and r4: "snd (and_then (listing w region ListTables
                 (\<lambda>h. gather_ddb_tables substrings (list_tables w h region))) (\<lambda>ddb.
     ret \<lparr>cloudformation_stacks = cfn, s3_buckets = s3, ecr_repositories = ecr,
          vpc_lambdas = lambdas, ddb_tables = ddb\<rparr>) h4) = Inr resources"
    by (elim exE conjE)
  from r4
  have "\<exists>ddb h5. gather_ddb_tables substrings (list_tables w h4 region) = Inr ddb \<and>
     snd (ret \<lparr>cloudformation_stacks = cfn, s3_buckets = s3, ecr_repositories = ecr,
          vpc_lambdas = lambdas, ddb_tables = ddb\<rparr> h5) = (Inr resources :: failure + resources)"
    by (rule and_then_listing_Inr)
  then obtain ddb h5
    where ddb: "gather_ddb_tables substrings (list_tables w h4 region) = Inr ddb"
    and r5: "snd (ret \<lparr>cloudformation_stacks = cfn, s3_buckets = s3, ecr_repositories = ecr,
          vpc_lambdas = lambdas, ddb_tables = ddb\<rparr> h5) = (Inr resources :: failure + resources)"
    by (elim exE conjE)
  from r5 have "resources = \<lparr>cloudformation_stacks = cfn, s3_buckets = s3, ecr_repositories = ecr,
          vpc_lambdas = lambdas, ddb_tables = ddb\<rparr>"
    by (simp add: ret_def)
  moreover from sub cfn have "cfn = []" by (rule gather_cloudformation_stacks_no_prefixes)
  moreover from sub s3 have "s3 = []" by (rule gather_s3_buckets_no_prefixes)
  moreover from sub ecr have "ecr = []" by (rule gather_ecr_repositories_no_prefixes)
  moreover from sub lambdas have "lambdas = []" by (rule gather_vpc_lambdas_no_prefixes)
  moreover from sub ddb have "ddb = []" by (rule gather_ddb_tables_no_prefixes)
  ultimately show ?thesis by simp
qed

lemma gather_unmanaged_resources_no_prefixes:
  assumes sub: "substrings = Some [] \<or> substrings = None"
    and res: "snd (gather_unmanaged_resources w substrings region h) = Inr u"
  shows "u = [(''s3_buckets'', []), (''ssm_params'', []), (''log_groups'', [])]"
proof -
  from res [unfolded gather_unmanaged_resources_def]
  have "\<exists>s3 h1. gather_s3_buckets substrings (buckets_all w h region) = Inr s3 \<and>
     snd (and_then (listing w region DescribeParameters
                 (\<lambda>h. gather_ssm_params substrings (describe_parameters w h region))) (\<lambda>ssm.
     and_then (listing w region DescribeLogGroups
                 (\<lambda>h. gather_log_groups substrings (describe_log_groups w h region))) (\<lambda>logs.
     ret [(''s3_buckets'', s3), (''ssm_params'', ssm), (''log_groups'', logs)])) h1) = Inr u"
    by (rule and_then_listing_Inr)
  then obtain s3 h1
    where s3: "gather_s3_buckets substrings (buckets_all w h region) = Inr s3"
    and r1: "snd (and_then (listing w region DescribeParameters
                 (\<lambda>h. gather_ssm_params substrings (describe_parameters w h region))) (\<lambda>ssm.
     and_then (listing w region DescribeLogGroups
                 (\<lambda>h. gather_log_groups substrings (describe_log_groups w h region))) (\<lambda>logs.
     ret [(''s3_buckets'', s3), (''ssm_params'', ssm), (''log_groups'', logs)])) h1) = Inr u"
    by (elim exE conjE)
  from r1
  have "\<exists>ssm h2. gather_ssm_params substrings (describe_parameters w h1 region) = Inr ssm \<and>
     snd (and_then (listing w region DescribeLogGroups
                 (\<lambda>h. gather_log_groups substrings (describe_log_groups w h region))) (\<lambda>logs.
     ret [(''s3_buckets'', s3), (''ssm_params'', ssm), (''log_groups'', logs)]) h2) = Inr u"
    by (rule and_then_listing_Inr)
  then obtain ssm h2
    where ssm: "gather_ssm_params substrings (describe_parameters w h1 region) = Inr ssm"
    and r2: "snd (and_then (listing w region DescribeLogGroups
                 (\<lambda>h. gather_log_groups substrings (describe_log_groups w h region))) (\<lambda>logs.
     ret [(''s3_buckets'', s3), (''ssm_params'', ssm), (''log_groups'', logs)]) h2) = Inr u"
    by (elim exE conjE)
  from r2
  have "\<exists>logs h3. gather_log_groups substrings (describe_log_groups w h2 region) = Inr logs \<and>
     snd (ret [(''s3_buckets'', s3), (''ssm_params'', ssm), (''log_groups'', logs)] h3)
       = (Inr u :: failure + (string \<times> string list) list)"
    by (rule and_then_listing_Inr)
  then obtain logs h3
    where logs: "gather_log_groups substrings (describe_log_groups w h2 region) = Inr logs"
    and r3: "snd (ret [(''s3_buckets'', s3), (''ssm_params'', ssm), (''log_groups'', logs)] h3)
       = (Inr u :: failure + (string \<times> string list) list)"
    by (elim exE conjE)
  from r3 have "u = [(''s3_buckets'', s3), (''ssm_params'', ssm), (''log_groups'', logs)]"
    by (simp only: ret_def snd_conv sum.inject)
  moreover from sub s3 have "s3 = []" by (rule gather_s3_buckets_no_prefixes)
  moreover from sub ssm have "ssm = []" by (rule gather_ssm_params_no_prefixes)
  moreover from sub logs have "logs = []" by (rule gather_log_groups_no_prefixes)
  ultimately show ?thesis by (simp only:)
qed

lemma emits_managed_pass_no_prefixes:
  assumes sub: "substrings = Some [] \<or> substrings = None"
  shows "emits gathers_only (managed_pass w no_confirm substrings region)"
  unfolding managed_pass_def
proof (rule emits_and_then_result)
  show "emits gathers_only (gather_resources w substrings region)"
    unfolding gather_resources_def
    by (intro emits_intros; simp)
next
  fix h resources
  assume "snd (gather_resources w substrings region h) = Inr resources"
  with sub have empty: "resources = \<lparr>cloudformation_stacks = [], s3_buckets = [],
      ecr_repositories = [], vpc_lambdas = [], ddb_tables = []\<rparr>"
    by (rule gather_resources_no_prefixes)
  show "emits gathers_only
     (and_then (s3_step w no_confirm resources region) (\<lambda>u.
      and_then (ecr_step w no_confirm resources region) (\<lambda>u.
      and_then (lambda_step w no_confirm resources region) (\<lambda>u.
      and_then (ddb_step w no_confirm resources region) (\<lambda>u.
      cloudformation_step w no_confirm resources region)))))"
    unfolding empty
    by (simp add: s3_step_def ecr_step_def lambda_step_def ddb_step_def
          cloudformation_step_def)
       (intro emits_intros; simp)
qed

lemma emits_unmanaged_loop_no_prefixes:
  "emits gathers_only
     (unmanaged_loop w no_confirm
        [(''s3_buckets'', []), (''ssm_params'', []), (''log_groups'', [])] region)"
  unfolding unmanaged_loop_def
proof (rule emits_for_prog_set)
  fix x :: "string \<times> (world \<Rightarrow> string \<Rightarrow> string \<Rightarrow> unit prog)"
  let ?u = "[(''s3_buckets'', []), (''ssm_params'', []), (''log_groups'', [])]
              :: (string \<times> string list) list"
  let ?body = "\<lambda>(resource_type, delete_function).
        let resources = (case map_of ?u resource_type of None \<Rightarrow> [] | Some rs \<Rightarrow> rs) in
        if resources \<noteq> [] then
          and_then (secho (''The following '' @ resource_type @ '' will be deleted:'')
                      (Some Yellow)) (\<lambda>u.
          and_then (secho (join newline resources) (Some Red)) (\<lambda>u.
          and_then (no_confirm_or w no_confirm
                      (''Do you want to proceed with deleting these '' @ resource_type @ ''?''))
            (\<lambda>ok.
          if ok then
            for_prog (\<lambda>resource_name. delete_function w resource_name region) resources
          else ret ())))
        else ret ()"
  have "(case map_of ?u t of None \<Rightarrow> [] | Some rs \<Rightarrow> rs) = []" for t
    by simp
  then have "?body x = ret ()"
    by (simp add: case_prod_beta)
  then show "emits gathers_only (?body x)"
    by (simp only: emits_ret)
qed

lemma emits_unmanaged_pass_no_prefixes:
  assumes sub: "substrings = Some [] \<or> substrings = None"
  shows "emits gathers_only (unmanaged_pass w no_confirm substrings region)"
  unfolding unmanaged_pass_def
proof (rule emits_and_then_result)
  show "emits gathers_only (gather_unmanaged_resources w substrings region)"
    unfolding gather_unmanaged_resources_def
    by (intro emits_intros; simp)
next
  fix h u
  assume "snd (gather_unmanaged_resources w substrings region h) = Inr u"
  with sub have "u = [(''s3_buckets'', []), (''ssm_params'', []), (''log_groups'', [])]"
    by (rule gather_unmanaged_resources_no_prefixes)
  then show "emits gathers_only (unmanaged_loop w no_confirm u region)"
    by (simp only: emits_unmanaged_loop_no_prefixes)
qed

text \<open>
  C10. With the empty substring list every gatherer returns the empty list. A run whose
  \<open>env_list\<close> is the empty list, or the default \<open>None\<close>, makes no provider call but the
  listing calls and asks no question but the opening one: it deletes nothing. (With
  \<open>None\<close> a gatherer raises \<open>TypeError\<close> at the first resource it would test; then
  nothing has been gathered either.)
\<close>

theorem no_prefixes_gather_and_delete_nothing:
  "gather_cloudformation_stacks (Some []) stack_pages = Inr [] \<and>
   gather_s3_buckets (Some []) all_buckets = Inr [] \<and>
   gather_ecr_repositories (Some []) repo_pages = Inr [] \<and>
   gather_vpc_lambdas (Some []) function_pages = Inr [] \<and>
   gather_ddb_tables (Some []) table_pages = Inr [] \<and>
   gather_ssm_params (Some []) param_pages = Inr [] \<and>
   gather_log_groups (Some []) log_pages = Inr [] \<and>
   (env_list = Some [] \<or> env_list = None \<longrightarrow>
      emits gathers_only (cleanup_env w c no_confirm env_list))"
proof -
  have run: "emits gathers_only (cleanup_env w c no_confirm env_list)"
    if sub: "env_list = Some [] \<or> env_list = None"
    unfolding cleanup_env_def Let_def
    by (intro emits_intros emits_managed_pass_no_prefixes [OF sub]
          emits_unmanaged_pass_no_prefixes [OF sub]; simp)
  have "gather_cloudformation_stacks (Some []) stack_pages = Inr []"
    by (simp add: gather_cloudformation_stacks_Some sorted_reverse_def)
  moreover have "gather_s3_buckets (Some []) all_buckets = Inr []"
    by (simp add: gather_s3_buckets_Some)
  moreover have "gather_ecr_repositories (Some []) repo_pages = Inr []"
    by (simp add: gather_ecr_repositories_Some)
  moreover have "gather_vpc_lambdas (Some []) function_pages = Inr []"
    by (simp add: gather_vpc_lambdas_Some)
  moreover have "gather_ddb_tables (Some []) table_pages = Inr []"
    by (simp add: gather_ddb_tables_Some)
  moreover have "gather_ssm_params (Some []) param_pages = Inr []"
    by (simp add: gather_ssm_params_Some)
  moreover have "gather_log_groups (Some []) log_pages = Inr []"
    by (simp add: gather_log_groups_Some)
  ultimately show ?thesis using run by (intro conjI impI)
qed

theorem no_prefixes_gather_and_delete_nothing_witness:
  "gather_cloudformation_stacks (Some []) (list_stacks busy_world [] ''eu-west-1'') = Inr [] \<and>
   gather_s3_buckets (Some []) (buckets_all busy_world [] ''eu-west-1'') = Inr [] \<and>
   gather_ssm_params (Some []) (describe_parameters busy_world [] ''eu-west-1'') = Inr [] \<and>
   list_all gathers_only
     (fst (cleanup_env busy_world \<lparr>REGION = ''eu-west-1'', ACCOUNT_ID = ''123456789012''\<rparr>
             True (Some []) [])) \<and>
   snd (cleanup_env busy_world \<lparr>REGION = ''eu-west-1'', ACCOUNT_ID = ''123456789012''\<rparr>
          True (Some []) []) = Inr () \<and>
   list_all gathers_only
     (fst (cleanup_env busy_world \<lparr>REGION = ''eu-west-1'', ACCOUNT_ID = ''123456789012''\<rparr>
             True None []))"
proof -
  have ok: "snd (cleanup_env busy_world \<lparr>REGION = ''eu-west-1'', ACCOUNT_ID = ''123456789012''\<rparr>
          True (Some []) []) = Inr ()"
    by code_simp
  from no_prefixes_gather_and_delete_nothing
         [of "list_stacks busy_world [] ''eu-west-1''" "buckets_all busy_world [] ''eu-west-1''"
             "[]" "[]" "[]" "describe_parameters busy_world [] ''eu-west-1''" "[]"
             "Some []" busy_world "\<lparr>REGION = ''eu-west-1'', ACCOUNT_ID = ''123456789012''\<rparr>"
             True]
       no_prefixes_gather_and_delete_nothing
         [of "[]" "[]" "[]" "[]" "[]" "[]" "[]"
             None busy_world "\<lparr>REGION = ''eu-west-1'', ACCOUNT_ID = ''123456789012''\<rparr>"
             True]
       ok
  show ?thesis by (simp only: emits_def simp_thms)
qed

section \<open>Prompts and aborting\<close>

subsection \<open>The actions ask nothing and never abort\<close>

lemma emits_empty_s3_buckets:
  assumes "\<And>s. P (Echo s)" and "\<And>r c. P (Call r c)"
  shows "emits P (empty_s3_buckets w bucket_names region)"
  unfolding empty_s3_buckets_def
  by (intro emits_intros; simp add: assms)

lemma emits_empty_ecr_repositories:
  assumes "\<And>s. P (Echo s)" and "\<And>r c. P (Call r c)"
  shows "emits P (empty_ecr_repositories w repository_names region)"
  unfolding empty_ecr_repositories_def
  by (intro emits_intros; simp add: assms)

lemma emits_update_lambda_vpc_config:
  assumes "\<And>s. P (Echo s)" and "\<And>r c. P (Call r c)"
  shows "emits P (update_lambda_vpc_config w lambda_functions region)"
  unfolding update_lambda_vpc_config_def
  by (intro emits_intros; simp add: assms)

lemma emits_remove_ddb_deletion_protection:
  assumes "\<And>s. P (Echo s)" and "\<And>r c. P (Call r c)"
  shows "emits P (remove_ddb_deletion_protection w table_names region)"
  unfolding remove_ddb_deletion_protection_def
  by (intro emits_intros; simp add: assms)

lemma delete_methods_cases:
  assumes "x \<in> set delete_methods"
  shows "x = (''cloudformation_stacks'', delete_cloudformation_stack) \<or>
      x = (''s3_buckets'', delete_s3_bucket) \<or>
      x = (''ecr_repositories'', delete_ecr_repository) \<or>
      x = (''ssm_params'', delete_ssm_param) \<or>
      x = (''log_groups'', delete_log_group)"
  using assms by (simp only: delete_methods_def list.set insert_iff empty_iff simp_thms)

lemma emits_delete_method:
  assumes "\<And>s. P (Echo s)" and "\<And>r c. P (Call r c)"
    and "(resource_type, delete_method) \<in> set delete_methods"
  shows "emits P (delete_method w n region)"
  using delete_methods_cases [OF assms(3)]
  by (elim disjE)
     (simp_all only: prod.inject emits_delete_cloudformation_stack emits_delete_s3_bucket
        emits_delete_ecr_repository emits_delete_ssm_param emits_delete_log_group assms)

lemma emits_delete_resources:
  assumes "\<And>s. P (Echo s)" and "\<And>r c. P (Call r c)"
  shows "emits P (delete_resources w resource_dict region)"
  unfolding delete_resources_def
proof (rule emits_for_prog)
  fix x :: "string \<times> string list"
  obtain resource_type resources where x: "x = (resource_type, resources)"
    by (cases x)
  show "emits P (case x of (resource_type, resources) \<Rightarrow>
        case map_of delete_methods resource_type of
          Some delete_method \<Rightarrow>
            for_prog (\<lambda>resource_name. delete_method w resource_name region) resources
        | None \<Rightarrow>
            secho (''No deletion method found for resource type: '' @ resource_type)
              (Some Yellow))"
  proof (cases "map_of delete_methods resource_type")
    case None
    with x show ?thesis by (simp add: emits_secho assms)
  next
    case (Some delete_method)
    then have "(resource_type, delete_method) \<in> set delete_methods"
      by (rule map_of_SomeD)
    then have "emits P (delete_method w n region)" for n
      by (rule emits_delete_method [OF assms])
    then have "emits P (for_prog (\<lambda>resource_name. delete_method w resource_name region) resources)"
      by (rule emits_for_prog)
    with x Some show ?thesis by simp
  qed
qed

lemma never_aborts_empty_s3_buckets:
  "never_aborts (empty_s3_buckets w bucket_names region)"
  unfolding empty_s3_buckets_def
  by (intro never_aborts_intros)

lemma never_aborts_empty_ecr_repositories:
  "never_aborts (empty_ecr_repositories w repository_names region)"
  unfolding empty_ecr_repositories_def
  by (intro never_aborts_intros)

lemma never_aborts_update_lambda_vpc_config:
  "never_aborts (update_lambda_vpc_config w lambda_functions region)"
  unfolding update_lambda_vpc_config_def
  by (intro never_aborts_intros)

lemma never_aborts_remove_ddb_deletion_protection:
  "never_aborts (remove_ddb_deletion_protection w table_names region)"
  unfolding remove_ddb_deletion_protection_def
  by (intro never_aborts_intros)

lemma never_aborts_delete_cloudformation_stack:
  "never_aborts (delete_cloudformation_stack w n region)"
  unfolding delete_cloudformation_stack_def
  by (intro never_aborts_intros; simp add: never_aborts_intros split: exn.splits)

lemma never_aborts_delete_s3_bucket: "never_aborts (delete_s3_bucket w n region)"
  unfolding delete_s3_bucket_def
  by (intro never_aborts_intros)

lemma never_aborts_delete_ecr_repository: "never_aborts (delete_ecr_repository w n region)"
  unfolding delete_ecr_repository_def
  by (intro never_aborts_intros)

lemma never_aborts_delete_ssm_param: "never_aborts (delete_ssm_param w n region)"
  unfolding delete_ssm_param_def
  by (intro never_aborts_intros)

lemma never_aborts_delete_log_group: "never_aborts (delete_log_group w n region)"
  unfolding delete_log_group_def
  by (intro never_aborts_intros)

lemma never_aborts_delete_method:
  assumes "(resource_type, delete_method) \<in> set delete_methods"
  shows "never_aborts (delete_method w n region)"
  using delete_methods_cases [OF assms]
  by (elim disjE)
     (simp_all only: prod.inject never_aborts_delete_cloudformation_stack
        never_aborts_delete_s3_bucket never_aborts_delete_ecr_repository
        never_aborts_delete_ssm_param never_aborts_delete_log_group)

lemma never_aborts_delete_resources:
  "never_aborts (delete_resources w resource_dict region)"
  unfolding delete_resources_def
proof (rule never_aborts_for_prog)
  fix x :: "string \<times> string list"
  obtain resource_type resources where x: "x = (resource_type, resources)"
    by (cases x)
  show "never_aborts (case x of (resource_type, resources) \<Rightarrow>
        case map_of delete_methods resource_type of
          Some delete_method \<Rightarrow>
            for_prog (\<lambda>resource_name. delete_method w resource_name region) resources
        | None \<Rightarrow>
            secho (''No deletion method found for resource type: '' @ resource_type)
              (Some Yellow))"
  proof (cases "map_of delete_methods resource_type")
    case None
    with x show ?thesis by (simp add: never_aborts_secho)
  next
    case (Some delete_method)
    then have "(resource_type, delete_method) \<in> set delete_methods"
      by (rule map_of_SomeD)
    then have "never_aborts (delete_method w n region)" for n
      by (rule never_aborts_delete_method)
    then have "never_aborts
        (for_prog (\<lambda>resource_name. delete_method w resource_name region) resources)"
      by (rule never_aborts_for_prog)
    with x Some show ?thesis by simp
  qed
qed

subsection \<open>Where a run can end in \<open>Abort\<close>\<close>

lemma aborts_only_never:
  "never_aborts m \<Longrightarrow> aborts_only_on_decline w no_confirm m"
  by (simp add: never_aborts_def aborts_only_on_decline_def)

lemma aborts_only_and_then:
  assumes m: "aborts_only_on_decline w no_confirm m"
    and k: "\<And>x. aborts_only_on_decline w no_confirm (k x)"
  shows "aborts_only_on_decline w no_confirm (and_then m k)"
  unfolding aborts_only_on_decline_def
proof (intro allI impI)
  fix h
  assume ab: "snd (and_then m k h) = Inl Abort"
  show "\<not> no_confirm \<and>
        (\<exists>es. fst (and_then m k h) = es @ [Confirm cloudformation_prompt] \<and>
              \<not> confirm_answer w (h @ es) cloudformation_prompt)"
  proof (cases "snd (m h)")
    case (Inl f)
    with ab have "snd (m h) = Inl Abort" and "fst (and_then m k h) = fst (m h)"
      by (simp_all add: and_then_proj)
    with m show ?thesis
      by (simp add: aborts_only_on_decline_def)
  next
    case (Inr x)
    with ab have sk: "snd (k x (h @ fst (m h))) = Inl Abort"
      and ev: "fst (and_then m k h) = fst (m h) @ fst (k x (h @ fst (m h)))"
      by (simp_all add: and_then_proj)
    from k [of x] sk obtain es where nc: "\<not> no_confirm"
      and es: "fst (k x (h @ fst (m h))) = es @ [Confirm cloudformation_prompt]"
      and ans: "\<not> confirm_answer w ((h @ fst (m h)) @ es) cloudformation_prompt"
      unfolding aborts_only_on_decline_def by blast
    from ev es have "fst (and_then m k h) = (fst (m h) @ es) @ [Confirm cloudformation_prompt]"
      by simp
    moreover from ans have "\<not> confirm_answer w (h @ (fst (m h) @ es)) cloudformation_prompt"
      by simp
    ultimately show ?thesis using nc by blast
  qed
qed

lemma aborts_only_if:
  "(b \<Longrightarrow> aborts_only_on_decline w no_confirm m) \<Longrightarrow>
   (\<not> b \<Longrightarrow> aborts_only_on_decline w no_confirm m') \<Longrightarrow>
   aborts_only_on_decline w no_confirm (if b then m else m')"
  by simp

lemma cloudformation_step_declined:
  assumes "cloudformation_stacks resources \<noteq> []" and "\<not> no_confirm"
    and "\<not> confirm_answer w
           (h @ [Echo (Styled ''The following CloudFormation stacks will be deleted:''
                         (Some Yellow)),
                 Echo (Styled (join newline (cloudformation_stacks resources)) (Some Red))])
           cloudformation_prompt"
  shows "cloudformation_step w no_confirm resources region h =
     ([Echo (Styled ''The following CloudFormation stacks will be deleted:'' (Some Yellow)),
       Echo (Styled (join newline (cloudformation_stacks resources)) (Some Red)),
       Confirm cloudformation_prompt],
      Inl Abort)"
  using assms
  by (simp add: cloudformation_step_def and_then_def secho_def no_confirm_or_def confirm_def
        raise_def)

lemma cloudformation_step_accepted:
  assumes "cloudformation_stacks resources \<noteq> []"
    and "no_confirm \<or> confirm_answer w
           (h @ [Echo (Styled ''The following CloudFormation stacks will be deleted:''
                         (Some Yellow)),
                 Echo (Styled (join newline (cloudformation_stacks resources)) (Some Red))])
           cloudformation_prompt"
  shows "snd (cloudformation_step w no_confirm resources region h) \<noteq> Inl Abort"
proof -
  have "snd (delete_resources w
          [(''cloudformation_stacks'', cloudformation_stacks resources)] region h') \<noteq> Inl Abort"
    for h'
    using never_aborts_delete_resources by (simp add: never_aborts_def)
  with assms show ?thesis
    by (auto simp: cloudformation_step_def and_then_proj secho_def no_confirm_or_def
          confirm_def ret_def)
qed

lemma aborts_only_cloudformation_step:
  "aborts_only_on_decline w no_confirm (cloudformation_step w no_confirm resources region)"
  unfolding aborts_only_on_decline_def
proof (intro allI impI)
  fix h
  let ?es = "[Echo (Styled ''The following CloudFormation stacks will be deleted:''
                      (Some Yellow)),
              Echo (Styled (join newline (cloudformation_stacks resources)) (Some Red))]"
  assume ab: "snd (cloudformation_step w no_confirm resources region h) = Inl Abort"
  have stacks: "cloudformation_stacks resources \<noteq> []"
  proof
    assume "cloudformation_stacks resources = []"
    then have "snd (cloudformation_step w no_confirm resources region h) = Inr ()"
      by (simp add: cloudformation_step_def secho_def)
    with ab show False by simp
  qed
  have declined: "\<not> (no_confirm \<or> confirm_answer w (h @ ?es) cloudformation_prompt)"
    using cloudformation_step_accepted [OF stacks] ab by blast
  then have "cloudformation_step w no_confirm resources region h =
      (?es @ [Confirm cloudformation_prompt], Inl Abort)"
    using cloudformation_step_declined [OF stacks, of no_confirm w h region] by simp
  with declined show "\<not> no_confirm \<and>
        (\<exists>es. fst (cloudformation_step w no_confirm resources region h) =
                 es @ [Confirm cloudformation_prompt] \<and>
              \<not> confirm_answer w (h @ es) cloudformation_prompt)"
    by (metis fst_conv)
qed

lemma never_aborts_s3_step: "never_aborts (s3_step w no_confirm resources region)"
  unfolding s3_step_def
  by (intro never_aborts_intros never_aborts_empty_s3_buckets)

lemma never_aborts_ecr_step: "never_aborts (ecr_step w no_confirm resources region)"
  unfolding ecr_step_def
  by (intro never_aborts_intros never_aborts_empty_ecr_repositories)

lemma never_aborts_lambda_step: "never_aborts (lambda_step w no_confirm resources region)"
  unfolding lambda_step_def
  by (intro never_aborts_intros never_aborts_update_lambda_vpc_config)

lemma never_aborts_ddb_step: "never_aborts (ddb_step w no_confirm resources region)"
  unfolding ddb_step_def
  by (intro never_aborts_intros never_aborts_remove_ddb_deletion_protection)

lemma never_aborts_gather_resources:
  "never_aborts (gather_resources w substrings region)"
  unfolding gather_resources_def
  by (intro never_aborts_intros)

lemma never_aborts_gather_unmanaged_resources:
  "never_aborts (gather_unmanaged_resources w substrings region)"
  unfolding gather_unmanaged_resources_def
  by (intro never_aborts_intros)

lemma never_aborts_for_prog_set:
  assumes "\<And>x. x \<in> set xs \<Longrightarrow> never_aborts (body x)"
  shows "never_aborts (for_prog body xs)"
  using assms
proof (induction xs)
  case Nil
  show ?case by (simp add: never_aborts_def)
next
  case (Cons x xs)
  show ?case
    unfolding for_prog_Cons_and_then
    by (rule never_aborts_and_then) (simp_all add: Cons)
qed

lemma never_aborts_unmanaged_loop:
  "never_aborts (unmanaged_loop w no_confirm unmanaged_resources region)"
  unfolding unmanaged_loop_def
proof (rule never_aborts_for_prog_set)
  fix x :: "string \<times> (world \<Rightarrow> string \<Rightarrow> string \<Rightarrow> unit prog)"
  assume mem: "x \<in> set delete_methods"
  obtain resource_type delete_function where x: "x = (resource_type, delete_function)"
    by (cases x)
  let ?body = "\<lambda>(resource_type, delete_function).
        let resources = (case map_of unmanaged_resources resource_type of
                           None \<Rightarrow> [] | Some rs \<Rightarrow> rs) in
        if resources \<noteq> [] then
          and_then (secho (''The following '' @ resource_type @ '' will be deleted:'')
                      (Some Yellow)) (\<lambda>u.
          and_then (secho (join newline resources) (Some Red)) (\<lambda>u.
          and_then (no_confirm_or w no_confirm
                      (''Do you want to proceed with deleting these '' @ resource_type @ ''?''))
            (\<lambda>ok.
          if ok then
            for_prog (\<lambda>resource_name. delete_function w resource_name region) resources
          else ret ())))
        else ret ()"
  from mem x have "never_aborts (delete_function w n region)" for n
    by (simp only: never_aborts_delete_method)
  then show "never_aborts (?body x)"
    unfolding x
    by (simp only: prod.case Let_def) (intro never_aborts_intros)
qed

lemma aborts_only_managed_pass:
  "aborts_only_on_decline w no_confirm (managed_pass w no_confirm substrings region)"
  unfolding managed_pass_def
  by (intro aborts_only_and_then aborts_only_cloudformation_step
        aborts_only_never [OF never_aborts_gather_resources]
        aborts_only_never [OF never_aborts_s3_step]
        aborts_only_never [OF never_aborts_ecr_step]
        aborts_only_never [OF never_aborts_lambda_step]
        aborts_only_never [OF never_aborts_ddb_step])

lemma never_aborts_unmanaged_pass:
  "never_aborts (unmanaged_pass w no_confirm substrings region)"
  unfolding unmanaged_pass_def
  by (intro never_aborts_and_then never_aborts_gather_unmanaged_resources
        never_aborts_unmanaged_loop)

lemma aborts_only_cleanup_env:
  "aborts_only_on_decline w no_confirm (cleanup_env w c no_confirm env_list)"
  unfolding cleanup_env_def Let_def
  by (intro aborts_only_and_then aborts_only_if aborts_only_managed_pass
        aborts_only_never [OF never_aborts_unmanaged_pass]
        aborts_only_never [OF never_aborts_secho]
        aborts_only_never [OF never_aborts_confirm]
        aborts_only_never [OF never_aborts_ret])

subsection \<open>Which prompts a run asks\<close>

lemma emits_gather_resources:
  assumes "\<And>r c. P (Call r c)"
  shows "emits P (gather_resources w substrings region)"
  unfolding gather_resources_def
  by (intro emits_intros; simp add: assms)

lemma emits_gather_unmanaged_resources:
  assumes "\<And>r c. P (Call r c)"
  shows "emits P (gather_unmanaged_resources w substrings region)"
  unfolding gather_unmanaged_resources_def
  by (intro emits_intros; simp add: assms)

lemma emits_s3_step:
  assumes "\<And>s. P (Echo s)" and "\<And>r c. P (Call r c)"
    and "\<not> no_confirm \<Longrightarrow> P (Confirm s3_prompt)"
  shows "emits P (s3_step w no_confirm resources region)"
  unfolding s3_step_def
  by (intro emits_intros emits_empty_s3_buckets; simp add: assms)

lemma emits_ecr_step:
  assumes "\<And>s. P (Echo s)" and "\<And>r c. P (Call r c)"
    and "\<not> no_confirm \<Longrightarrow> P (Confirm ecr_prompt)"
  shows "emits P (ecr_step w no_confirm resources region)"
  unfolding ecr_step_def
  by (intro emits_intros emits_empty_ecr_repositories; simp add: assms)

lemma emits_lambda_step:
  assumes "\<And>s. P (Echo s)" and "\<And>r c. P (Call r c)"
    and "\<not> no_confirm \<Longrightarrow> P (Confirm lambda_prompt)"
  shows "emits P (lambda_step w no_confirm resources region)"
  unfolding lambda_step_def
  by (intro emits_intros emits_update_lambda_vpc_config; simp add: assms)

lemma emits_ddb_step:
  assumes "\<And>s. P (Echo s)" and "\<And>r c. P (Call r c)"
    and "\<not> no_confirm \<Longrightarrow> P (Confirm ddb_prompt)"
  shows "emits P (ddb_step w no_confirm resources region)"
  unfolding ddb_step_def
  by (intro emits_intros emits_remove_ddb_deletion_protection; simp add: assms)

lemma emits_cloudformation_step:
  assumes "\<And>s. P (Echo s)" and "\<And>r c. P (Call r c)"
    and "\<not> no_confirm \<Longrightarrow> P (Confirm cloudformation_prompt)"
  shows "emits P (cloudformation_step w no_confirm resources region)"
  unfolding cloudformation_step_def
  by (intro emits_intros emits_delete_resources; simp add: assms)

lemma emits_unmanaged_loop_prompts:
  assumes echo: "\<And>s. P (Echo s)" and call: "\<And>r c. P (Call r c)"
    and prompt: "\<And>resource_type delete_function.
           \<not> no_confirm \<Longrightarrow> (resource_type, delete_function) \<in> set delete_methods \<Longrightarrow>
           P (Confirm (''Do you want to proceed with deleting these '' @ resource_type @ ''?''))"
  shows "emits P (unmanaged_loop w no_confirm unmanaged_resources region)"
  unfolding unmanaged_loop_def
proof (rule emits_for_prog_set)
  fix x :: "string \<times> (world \<Rightarrow> string \<Rightarrow> string \<Rightarrow> unit prog)"
  assume mem: "x \<in> set delete_methods"
  obtain resource_type delete_function where x: "x = (resource_type, delete_function)"
    by (cases x)
  let ?body = "\<lambda>(resource_type, delete_function).
        let resources = (case map_of unmanaged_resources resource_type of
                           None \<Rightarrow> [] | Some rs \<Rightarrow> rs) in
        if resources \<noteq> [] then
          and_then (secho (''The following '' @ resource_type @ '' will be deleted:'')
                      (Some Yellow)) (\<lambda>u.
          and_then (secho (join newline resources) (Some Red)) (\<lambda>u.
          and_then (no_confirm_or w no_confirm
                      (''Do you want to proceed with deleting these '' @ resource_type @ ''?''))
            (\<lambda>ok.
          if ok then
            for_prog (\<lambda>resource_name. delete_function w resource_name region) resources
          else ret ())))
        else ret ()"
  from mem x have del: "emits P (delete_function w n region)" for n
    by (simp only: emits_delete_method [OF echo call])
  from mem x have mem': "(resource_type, delete_function) \<in> set delete_methods"
    by simp
  have ask: "P (Confirm (''Do you want to proceed with deleting these '' @ resource_type @ ''?''))"
    if "\<not> no_confirm"
    using that mem' by (rule prompt)
  show "emits P (?body x)"
    unfolding x
    by (simp only: prod.case Let_def) (intro emits_intros del ask echo; assumption)
qed

lemma emits_unmanaged_pass:
  assumes echo: "\<And>s. P (Echo s)" and call: "\<And>r c. P (Call r c)"
    and prompt: "\<And>resource_type delete_function.
           \<not> no_confirm \<Longrightarrow> (resource_type, delete_function) \<in> set delete_methods \<Longrightarrow>
           P (Confirm (''Do you want to proceed with deleting these '' @ resource_type @ ''?''))"
  shows "emits P (unmanaged_pass w no_confirm substrings region)"
  unfolding unmanaged_pass_def
  by (intro emits_and_then emits_gather_unmanaged_resources call
        emits_unmanaged_loop_prompts echo prompt)

lemma unmanaged_prompts_differ:
  assumes "(resource_type, delete_function) \<in> set delete_methods"
  shows "Confirm (''Do you want to proceed with deleting these '' @ resource_type @ ''?'')
           \<noteq> Confirm cloudformation_prompt"
  using delete_methods_cases [OF assms]
  by (elim disjE) (simp_all add: cloudformation_prompt_def)

subsection \<open>A declined CloudFormation prompt ends the run\<close>

lemma decline_ends_emits:
  "emits (\<lambda>e. e \<noteq> Confirm cloudformation_prompt) m \<Longrightarrow> decline_ends m"
  by (simp add: emits_def decline_ends_def list_all_iff) blast

lemma decline_ends_and_then:
  assumes m: "decline_ends m" and k: "\<And>x. decline_ends (k x)"
  shows "decline_ends (and_then m k)"
  unfolding decline_ends_def
proof (intro allI impI)
  fix h
  assume asked: "Confirm cloudformation_prompt \<in> set (fst (and_then m k h))"
  show "snd (and_then m k h) = Inl Abort \<and>
        last (fst (and_then m k h)) = Confirm cloudformation_prompt"
  proof (cases "snd (m h)")
    case (Inl f)
    then have "fst (and_then m k h) = fst (m h)" and "snd (and_then m k h) = Inl f"
      by (simp_all add: and_then_proj)
    with asked m Inl show ?thesis
      by (simp add: decline_ends_def)
  next
    case (Inr x)
    then have ev: "fst (and_then m k h) = fst (m h) @ fst (k x (h @ fst (m h)))"
      and res: "snd (and_then m k h) = snd (k x (h @ fst (m h)))"
      by (simp_all add: and_then_proj)
    from Inr m have "Confirm cloudformation_prompt \<notin> set (fst (m h))"
      by (auto simp: decline_ends_def)
    with asked ev have in_k: "Confirm cloudformation_prompt \<in> set (fst (k x (h @ fst (m h))))"
      by simp
    with k [of x] have ended: "snd (k x (h @ fst (m h))) = Inl Abort"
      and last_k: "last (fst (k x (h @ fst (m h)))) = Confirm cloudformation_prompt"
      by (simp_all add: decline_ends_def)
    from in_k have "fst (k x (h @ fst (m h))) \<noteq> []"
      by auto
    with ev last_k have "last (fst (and_then m k h)) = Confirm cloudformation_prompt"
      by simp
    with res ended show ?thesis by simp
  qed
qed

lemma decline_ends_if:
  "(b \<Longrightarrow> decline_ends m) \<Longrightarrow> (\<not> b \<Longrightarrow> decline_ends m') \<Longrightarrow>
   decline_ends (if b then m else m')"
  by simp

lemma decline_ends_cloudformation_step:
  assumes "\<forall>h'. \<not> confirm_answer w h' cloudformation_prompt"
  shows "decline_ends (cloudformation_step w no_confirm resources region)"
proof (cases "cloudformation_stacks resources \<noteq> [] \<and> \<not> no_confirm")
  case True
  with assms have "cloudformation_step w no_confirm resources region h =
     ([Echo (Styled ''The following CloudFormation stacks will be deleted:'' (Some Yellow)),
       Echo (Styled (join newline (cloudformation_stacks resources)) (Some Red)),
       Confirm cloudformation_prompt],
      Inl Abort)" for h
    by (simp add: cloudformation_step_declined)
  then show ?thesis
    by (simp add: decline_ends_def)
next
  case False
  have "emits (\<lambda>e. e \<noteq> Confirm cloudformation_prompt)
          (cloudformation_step w no_confirm resources region)"
  proof (cases "cloudformation_stacks resources = []")
    case True
    then show ?thesis
      by (simp add: cloudformation_step_def emits_secho)
  next
    case stacks: False
    with False have "no_confirm" by simp
    then show ?thesis
      by (intro emits_cloudformation_step) simp_all
  qed
  then show ?thesis by (rule decline_ends_emits)
qed

lemma decline_ends_managed_pass:
  assumes "\<forall>h'. \<not> confirm_answer w h' cloudformation_prompt"
  shows "decline_ends (managed_pass w no_confirm substrings region)"
  unfolding managed_pass_def
proof (intro decline_ends_and_then decline_ends_cloudformation_step assms)
  show "decline_ends (gather_resources w substrings region)"
    by (intro decline_ends_emits emits_gather_resources) simp
  show "decline_ends (s3_step w no_confirm resources region)" for resources
    by (intro decline_ends_emits emits_s3_step)
       (simp_all add: s3_prompt_def cloudformation_prompt_def)
  show "decline_ends (ecr_step w no_confirm resources region)" for resources
    by (intro decline_ends_emits emits_ecr_step)
       (simp_all add: ecr_prompt_def cloudformation_prompt_def)
  show "decline_ends (lambda_step w no_confirm resources region)" for resources
    by (intro decline_ends_emits emits_lambda_step)
       (simp_all add: lambda_prompt_def cloudformation_prompt_def)
  show "decline_ends (ddb_step w no_confirm resources region)" for resources
    by (intro decline_ends_emits emits_ddb_step)
       (simp_all add: ddb_prompt_def cloudformation_prompt_def)
qed

lemma decline_ends_unmanaged_pass:
  "decline_ends (unmanaged_pass w no_confirm substrings region)"
  by (intro decline_ends_emits emits_unmanaged_pass unmanaged_prompts_differ) simp_all

lemma decline_ends_cleanup_env:
  assumes "\<forall>h'. \<not> confirm_answer w h' cloudformation_prompt"
  shows "decline_ends (cleanup_env w c no_confirm env_list)"
  unfolding cleanup_env_def Let_def
proof (intro decline_ends_and_then decline_ends_if decline_ends_managed_pass assms
    decline_ends_unmanaged_pass)
  show "decline_ends (secho t fg)" for t fg
    by (intro decline_ends_emits emits_secho) simp
  show "decline_ends (confirm w proceed_prompt)"
    by (intro decline_ends_emits emits_confirm)
       (simp add: proceed_prompt_def cloudformation_prompt_def)
  show "decline_ends (ret ())"
    by (intro decline_ends_emits emits_ret)
  show "decline_ends (secho t fg)" for t fg
    by (intro decline_ends_emits emits_secho) simp
qed

lemma emits_cleanup_env_no_confirm:
  "emits only_opening_prompt (cleanup_env w c True env_list)"
  unfolding cleanup_env_def Let_def managed_pass_def
  by (intro emits_intros emits_gather_resources emits_s3_step emits_ecr_step emits_lambda_step
        emits_ddb_step emits_cloudformation_step emits_unmanaged_pass; simp)

subsection \<open>The blocks of the managed pass, declined and under \<open>no_confirm\<close>\<close>

lemma steps_declined:
  "(s3_buckets resources \<noteq> [] \<and>
    \<not> confirm_answer w
        (h @ heading ''The following S3 buckets will be emptied'' (s3_buckets resources))
        s3_prompt \<longrightarrow>
      s3_step w False resources region h =
        (heading ''The following S3 buckets will be emptied'' (s3_buckets resources)
           @ [Confirm s3_prompt], Inr ())) \<and>
   (ecr_repositories resources \<noteq> [] \<and>
    \<not> confirm_answer w
        (h @ heading ''The following ECR repositories will be emptied:''
               (ecr_repositories resources))
        ecr_prompt \<longrightarrow>
      ecr_step w False resources region h =
        (heading ''The following ECR repositories will be emptied:''
           (ecr_repositories resources) @ [Confirm ecr_prompt], Inr ())) \<and>
   (vpc_lambdas resources \<noteq> [] \<and>
    \<not> confirm_answer w
        (h @ heading
               ''The following Lambda functions will have their VPC configuration removed:''
               (vpc_lambdas resources))
        lambda_prompt \<longrightarrow>
      lambda_step w False resources region h =
        (heading ''The following Lambda functions will have their VPC configuration removed:''
           (vpc_lambdas resources) @ [Confirm lambda_prompt], Inr ())) \<and>
   (ddb_tables resources \<noteq> [] \<and>
    \<not> confirm_answer w
        (h @ heading
               ''The following DynamoDB tables will have their deletion protection removed:''
               (ddb_tables resources))
        ddb_prompt \<longrightarrow>
      ddb_step w False resources region h =
        (heading ''The following DynamoDB tables will have their deletion protection removed:''
           (ddb_tables resources) @ [Confirm ddb_prompt], Inr ()))"
  by (simp add: s3_step_def ecr_step_def lambda_step_def ddb_step_def heading_def
        and_then_proj secho_def no_confirm_or_def confirm_def ret_def)

lemma steps_no_confirm:
  "(s3_buckets resources \<noteq> [] \<longrightarrow>
      s3_step w True resources region h =
        (let es = heading ''The following S3 buckets will be emptied'' (s3_buckets resources)
         in (es @ fst (empty_s3_buckets w (s3_buckets resources) region (h @ es)),
             snd (empty_s3_buckets w (s3_buckets resources) region (h @ es))))) \<and>
   (ecr_repositories resources \<noteq> [] \<longrightarrow>
      ecr_step w True resources region h =
        (let es = heading ''The following ECR repositories will be emptied:''
                    (ecr_repositories resources)
         in (es @ fst (empty_ecr_repositories w (ecr_repositories resources) region (h @ es)),
             snd (empty_ecr_repositories w (ecr_repositories resources) region (h @ es))))) \<and>
   (vpc_lambdas resources \<noteq> [] \<longrightarrow>
      lambda_step w True resources region h =
        (let es = heading
                    ''The following Lambda functions will have their VPC configuration removed:''
                    (vpc_lambdas resources)
         in (es @ fst (update_lambda_vpc_config w (vpc_lambdas resources) region (h @ es)),
             snd (update_lambda_vpc_config w (vpc_lambdas resources) region (h @ es))))) \<and>
   (ddb_tables resources \<noteq> [] \<longrightarrow>
      ddb_step w True resources region h =
        (let es = heading
                    ''The following DynamoDB tables will have their deletion protection removed:''
                    (ddb_tables resources)
         in (es @ fst (remove_ddb_deletion_protection w (ddb_tables resources) region (h @ es)),
             snd (remove_ddb_deletion_protection w (ddb_tables resources) region (h @ es))))) \<and>
   (cloudformation_stacks resources \<noteq> [] \<longrightarrow>
      cloudformation_step w True resources region h =
        (let es = heading ''The following CloudFormation stacks will be deleted:''
                    (cloudformation_stacks resources)
         in (es @ fst (delete_resources w
                         [(''cloudformation_stacks'', cloudformation_stacks resources)]
                         region (h @ es)),
             snd (delete_resources w
                    [(''cloudformation_stacks'', cloudformation_stacks resources)]
                    region (h @ es)))))"
  by (simp add: s3_step_def ecr_step_def lambda_step_def ddb_step_def cloudformation_step_def
        heading_def and_then_proj secho_def no_confirm_or_def ret_def Let_def)

text \<open>
  C4. In a run of \<open>cleanup_env\<close>: for a user who declines the CloudFormation prompt, once
  that prompt is asked the run ends there, in \<open>Abort\<close>. A run ends in \<open>Abort\<close> only so:
  without \<open>no_confirm\<close>, the declined CloudFormation prompt being its last event.
  Declined, the S3, ECR, Lambda and DynamoDB blocks make no call and return, so the run
  goes on. Under \<open>no_confirm\<close> the run asks no question but the opening one, and every
  block with something gathered goes on to its action.
\<close>

theorem only_cloudformation_decline_aborts:
  "(Confirm cloudformation_prompt \<in> set (fst (cleanup_env w c no_confirm env_list h)) \<and>
    (\<forall>h'. \<not> confirm_answer w h' cloudformation_prompt) \<longrightarrow>
      snd (cleanup_env w c no_confirm env_list h) = Inl Abort \<and>
      last (fst (cleanup_env w c no_confirm env_list h)) = Confirm cloudformation_prompt) \<and>
   (snd (cleanup_env w c no_confirm env_list h) = Inl Abort \<longrightarrow>
      \<not> no_confirm \<and>
      (\<exists>es. fst (cleanup_env w c no_confirm env_list h) = es @ [Confirm cloudformation_prompt] \<and>
            \<not> confirm_answer w (h @ es) cloudformation_prompt)) \<and>
   (s3_buckets resources \<noteq> [] \<and>
    \<not> confirm_answer w
        (h @ heading ''The following S3 buckets will be emptied'' (s3_buckets resources))
        s3_prompt \<longrightarrow>
      s3_step w False resources region h =
        (heading ''The following S3 buckets will be emptied'' (s3_buckets resources)
           @ [Confirm s3_prompt], Inr ())) \<and>
   (ecr_repositories resources \<noteq> [] \<and>
    \<not> confirm_answer w
        (h @ heading ''The following ECR repositories will be emptied:''
               (ecr_repositories resources))
        ecr_prompt \<longrightarrow>
      ecr_step w False resources region h =
        (heading ''The following ECR repositories will be emptied:''
           (ecr_repositories resources) @ [Confirm ecr_prompt], Inr ())) \<and>
   (vpc_lambdas resources \<noteq> [] \<and>
    \<not> confirm_answer w
        (h @ heading
               ''The following Lambda functions will have their VPC configuration removed:''
               (vpc_lambdas resources))
        lambda_prompt \<longrightarrow>
      lambda_step w False resources region h =
        (heading ''The following Lambda functions will have their VPC configuration removed:''
           (vpc_lambdas resources) @ [Confirm lambda_prompt], Inr ())) \<and>
   (ddb_tables resources \<noteq> [] \<and>
    \<not> confirm_answer w
        (h @ heading
               ''The following DynamoDB tables will have their deletion protection removed:''
               (ddb_tables resources))
        ddb_prompt \<longrightarrow>
      ddb_step w False resources region h =
        (heading ''The following DynamoDB tables will have their deletion protection removed:''
           (ddb_tables resources) @ [Confirm ddb_prompt], Inr ())) \<and>
   emits only_opening_prompt (cleanup_env w c True env_list) \<and>
   (s3_buckets resources \<noteq> [] \<longrightarrow>
      s3_step w True resources region h =
        (let es = heading ''The following S3 buckets will be emptied'' (s3_buckets resources)
         in (es @ fst (empty_s3_buckets w (s3_buckets resources) region (h @ es)),
             snd (empty_s3_buckets w (s3_buckets resources) region (h @ es))))) \<and>
   (ecr_repositories resources \<noteq> [] \<longrightarrow>
      ecr_step w True resources region h =
        (let es = heading ''The following ECR repositories will be emptied:''
                    (ecr_repositories resources)
         in (es @ fst (empty_ecr_repositories w (ecr_repositories resources) region (h @ es)),
             snd (empty_ecr_repositories w (ecr_repositories resources) region (h @ es))))) \<and>
   (vpc_lambdas resources \<noteq> [] \<longrightarrow>
      lambda_step w True resources region h =
        (let es = heading
                    ''The following Lambda functions will have their VPC configuration removed:''
                    (vpc_lambdas resources)
         in (es @ fst (update_lambda_vpc_config w (vpc_lambdas resources) region (h @ es)),
             snd (update_lambda_vpc_config w (vpc_lambdas resources) region (h @ es))))) \<and>
   (ddb_tables resources \<noteq> [] \<longrightarrow>
      ddb_step w True resources region h =
        (let es = heading
                    ''The following DynamoDB tables will have their deletion protection removed:''
                    (ddb_tables resources)
         in (es @ fst (remove_ddb_deletion_protection w (ddb_tables resources) region (h @ es)),
             snd (remove_ddb_deletion_protection w (ddb_tables resources) region (h @ es))))) \<and>
   (cloudformation_stacks resources \<noteq> [] \<longrightarrow>
      cloudformation_step w True resources region h =
        (let es = heading ''The following CloudFormation stacks will be deleted:''
                    (cloudformation_stacks resources)
         in (es @ fst (delete_resources w
                         [(''cloudformation_stacks'', cloudformation_stacks resources)]
                         region (h @ es)),
             snd (delete_resources w
                    [(''cloudformation_stacks'', cloudformation_stacks resources)]
                    region (h @ es)))))"
proof -
  have 1: "Confirm cloudformation_prompt \<in> set (fst (cleanup_env w c no_confirm env_list h)) \<and>
    (\<forall>h'. \<not> confirm_answer w h' cloudformation_prompt) \<longrightarrow>
      snd (cleanup_env w c no_confirm env_list h) = Inl Abort \<and>
      last (fst (cleanup_env w c no_confirm env_list h)) = Confirm cloudformation_prompt"
  proof
    assume a: "Confirm cloudformation_prompt \<in> set (fst (cleanup_env w c no_confirm env_list h)) \<and>
      (\<forall>h'. \<not> confirm_answer w h' cloudformation_prompt)"
    then have "decline_ends (cleanup_env w c no_confirm env_list)"
      by (intro decline_ends_cleanup_env) simp
    with a show "snd (cleanup_env w c no_confirm env_list h) = Inl Abort \<and>
      last (fst (cleanup_env w c no_confirm env_list h)) = Confirm cloudformation_prompt"
      by (simp add: decline_ends_def)
  qed
  have 2: "snd (cleanup_env w c no_confirm env_list h) = Inl Abort \<longrightarrow>
      \<not> no_confirm \<and>
      (\<exists>es. fst (cleanup_env w c no_confirm env_list h) = es @ [Confirm cloudformation_prompt] \<and>
            \<not> confirm_answer w (h @ es) cloudformation_prompt)"
    using aborts_only_cleanup_env [of w no_confirm c env_list,
        unfolded aborts_only_on_decline_def]
    by (rule spec)
  note d = steps_declined [of resources w h region]
  note n = steps_no_confirm [of resources w region h]
  show ?thesis
    apply (rule conjI, rule 1)
    apply (rule conjI, rule 2)
    apply (rule conjI, rule d [THEN conjunct1])
    apply (rule conjI, rule d [THEN conjunct2, THEN conjunct1])
    apply (rule conjI, rule d [THEN conjunct2, THEN conjunct2, THEN conjunct1])
    apply (rule conjI, rule d [THEN conjunct2, THEN conjunct2, THEN conjunct2])
    apply (rule conjI, rule emits_cleanup_env_no_confirm)
    apply (rule n)
    done
qed

theorem only_cloudformation_decline_aborts_witness:
  "snd (cleanup_env (busy_world\<lparr>confirm_answer := \<lambda>h t. t \<noteq> cloudformation_prompt\<rparr>)
          \<lparr>REGION = ''eu-west-1'', ACCOUNT_ID = ''123456789012''\<rparr> False
          (Some [''env-a'']) [])
     = Inl Abort \<and>
   last (fst (cleanup_env (busy_world\<lparr>confirm_answer := \<lambda>h t. t \<noteq> cloudformation_prompt\<rparr>)
                \<lparr>REGION = ''eu-west-1'', ACCOUNT_ID = ''123456789012''\<rparr> False
                (Some [''env-a'']) []))
     = Confirm cloudformation_prompt \<and>
   s3_step (busy_world\<lparr>confirm_answer := \<lambda>h t. False\<rparr>) False
     \<lparr>cloudformation_stacks = [''env-a-app''], s3_buckets = [''env-a-assets''],
      ecr_repositories = [''env-a-repo''], vpc_lambdas = [''env-a-fn''],
      ddb_tables = [''env-a-table'']\<rparr> ''eu-west-1'' []
     = ([Echo (Styled ''The following S3 buckets will be emptied'' (Some Yellow)),
         Echo (Styled ''env-a-assets'' (Some Red)), Confirm s3_prompt], Inr ()) \<and>
   ecr_step (busy_world\<lparr>confirm_answer := \<lambda>h t. False\<rparr>) False
     \<lparr>cloudformation_stacks = [''env-a-app''], s3_buckets = [''env-a-assets''],
      ecr_repositories = [''env-a-repo''], vpc_lambdas = [''env-a-fn''],
      ddb_tables = [''env-a-table'']\<rparr> ''eu-west-1'' []
     = ([Echo (Styled ''The following ECR repositories will be emptied:'' (Some Yellow)),
         Echo (Styled ''env-a-repo'' (Some Red)), Confirm ecr_prompt], Inr ()) \<and>
   lambda_step (busy_world\<lparr>confirm_answer := \<lambda>h t. False\<rparr>) False
     \<lparr>cloudformation_stacks = [''env-a-app''], s3_buckets = [''env-a-assets''],
      ecr_repositories = [''env-a-repo''], vpc_lambdas = [''env-a-fn''],
      ddb_tables = [''env-a-table'']\<rparr> ''eu-west-1'' []
     = ([Echo (Styled
           ''The following Lambda functions will have their VPC configuration removed:''
           (Some Yellow)),
         Echo (Styled ''env-a-fn'' (Some Red)), Confirm lambda_prompt], Inr ()) \<and>
   ddb_step (busy_world\<lparr>confirm_answer := \<lambda>h t. False\<rparr>) False
     \<lparr>cloudformation_stacks = [''env-a-app''], s3_buckets = [''env-a-assets''],
      ecr_repositories = [''env-a-repo''], vpc_lambdas = [''env-a-fn''],
      ddb_tables = [''env-a-table'']\<rparr> ''eu-west-1'' []
     = ([Echo (Styled
           ''The following DynamoDB tables will have their deletion protection removed:''
           (Some Yellow)),
         Echo (Styled ''env-a-table'' (Some Red)), Confirm ddb_prompt], Inr ()) \<and>
   list_all only_opening_prompt
     (fst (cleanup_env busy_world \<lparr>REGION = ''eu-west-1'', ACCOUNT_ID = ''123456789012''\<rparr>
             True (Some [''env-a'']) [])) \<and>
   calls_of (fst (cleanup_env
       (busy_world\<lparr>confirm_answer := \<lambda>h t.
          t \<noteq> s3_prompt \<and> t \<noteq> ecr_prompt \<and> t \<noteq> lambda_prompt \<and> t \<noteq> ddb_prompt\<rparr>)
       \<lparr>REGION = ''eu-west-1'', ACCOUNT_ID = ''123456789012''\<rparr> False (Some [''env-a'']) []))
     = [ListStacks, ListBuckets, DescribeRepositories, ListFunctions, ListTables,
        DeleteStack ''env-a-app'', WaitStackDeleteComplete ''env-a-app'',
        DeleteStack ''env-a-db'', WaitStackDeleteComplete ''env-a-db'',
        ListBuckets, DescribeParameters, DescribeLogGroups,
        ObjectVersionsDelete ''env-a-assets'', BucketDelete ''env-a-assets'',
        DeleteParameter ''/env-a/db/url'', DeleteLogGroup ''/aws/lambda/env-a-fn'']"
proof -
  let ?w = "busy_world\<lparr>confirm_answer := \<lambda>h t. t \<noteq> cloudformation_prompt\<rparr>"
  let ?no = "busy_world\<lparr>confirm_answer := \<lambda>h t. False\<rparr>"
  let ?c = "\<lparr>REGION = ''eu-west-1'', ACCOUNT_ID = ''123456789012''\<rparr>"
  let ?r = "\<lparr>cloudformation_stacks = [''env-a-app''], s3_buckets = [''env-a-assets''],
      ecr_repositories = [''env-a-repo''], vpc_lambdas = [''env-a-fn''],
      ddb_tables = [''env-a-table'']\<rparr>"
  have asked: "Confirm cloudformation_prompt
      \<in> set (fst (cleanup_env ?w ?c False (Some [''env-a'']) []))"
    by code_simp
  have declines: "\<forall>h'. \<not> confirm_answer ?w h' cloudformation_prompt"
    by simp
  have skipped: "calls_of (fst (cleanup_env
       (busy_world\<lparr>confirm_answer := \<lambda>h t.
          t \<noteq> s3_prompt \<and> t \<noteq> ecr_prompt \<and> t \<noteq> lambda_prompt \<and> t \<noteq> ddb_prompt\<rparr>)
       ?c False (Some [''env-a'']) []))
     = [ListStacks, ListBuckets, DescribeRepositories, ListFunctions, ListTables,
        DeleteStack ''env-a-app'', WaitStackDeleteComplete ''env-a-app'',
        DeleteStack ''env-a-db'', WaitStackDeleteComplete ''env-a-db'',
        ListBuckets, DescribeParameters, DescribeLogGroups,
        ObjectVersionsDelete ''env-a-assets'', BucketDelete ''env-a-assets'',
        DeleteParameter ''/env-a/db/url'', DeleteLogGroup ''/aws/lambda/env-a-fn'']"
    by code_simp
  note run = only_cloudformation_decline_aborts
               [of ?w ?c False "Some [''env-a'']" "[]" ?r "''eu-west-1''"]
  note steps = only_cloudformation_decline_aborts
               [of ?no ?c False "Some [''env-a'']" "[]" ?r "''eu-west-1''"]
  note quiet = only_cloudformation_decline_aborts
               [of busy_world ?c False "Some [''env-a'']" "[]" ?r "''eu-west-1''"]
  from run asked declines
  have "snd (cleanup_env ?w ?c False (Some [''env-a'']) []) = Inl Abort"
    and "last (fst (cleanup_env ?w ?c False (Some [''env-a'']) [])) = Confirm cloudformation_prompt"
    by (simp_all only: simp_thms)
  moreover from steps
  have "s3_step ?no False ?r ''eu-west-1'' []
     = ([Echo (Styled ''The following S3 buckets will be emptied'' (Some Yellow)),
         Echo (Styled ''env-a-assets'' (Some Red)), Confirm s3_prompt], Inr ())"
    and "ecr_step ?no False ?r ''eu-west-1'' []
     = ([Echo (Styled ''The following ECR repositories will be emptied:'' (Some Yellow)),
         Echo (Styled ''env-a-repo'' (Some Red)), Confirm ecr_prompt], Inr ())"
    and "lambda_step ?no False ?r ''eu-west-1'' []
     = ([Echo (Styled
           ''The following Lambda functions will have their VPC configuration removed:''
           (Some Yellow)),
         Echo (Styled ''env-a-fn'' (Some Red)), Confirm lambda_prompt], Inr ())"
    and "ddb_step ?no False ?r ''eu-west-1'' []
     = ([Echo (Styled
           ''The following DynamoDB tables will have their deletion protection removed:''
           (Some Yellow)),
         Echo (Styled ''env-a-table'' (Some Red)), Confirm ddb_prompt], Inr ())"
    by (simp_all add: heading_def)
  moreover from quiet
  have "list_all only_opening_prompt (fst (cleanup_env busy_world ?c True (Some [''env-a'']) []))"
    by (simp only: emits_def)
  ultimately show ?thesis using skipped
    by - (intro conjI; assumption)
qed

end
